theory Spec2Isabelle
  imports Main
begin

section \<open>Data model of the migration\<close>

text \<open>
  The schema of \<^verbatim>\<open>supabase/migrations/20251216092500_...sql\<close>. A UUID is an opaque
  identifier and a timestamp a point in time; both are natural numbers here. A column
  that the table declares without \<^verbatim>\<open>NOT NULL\<close> has an \<open>option\<close> type, \<open>None\<close>
  being SQL's NULL.
\<close>

type_synonym uuid = nat
type_synonym timestamp = nat

text \<open>\<^verbatim>\<open>CREATE TYPE public.task_status AS ENUM ('todo', 'in_progress', 'completed')\<close>\<close>

datatype task_status = todo | in_progress | completed

text \<open>\<^verbatim>\<open>CREATE TYPE public.app_role AS ENUM ('manager', 'user')\<close>\<close>

datatype app_role = manager | user

text \<open>
  A row of \<^verbatim>\<open>auth.users\<close>, the table of the authentication service that every
  foreign key of the migration points to. The migration reads three of its columns:
  \<^verbatim>\<open>id\<close>, \<^verbatim>\<open>email\<close> and \<^verbatim>\<open>raw_user_meta_data\<close>, a JSON object whose text members
  are kept as an association list.
\<close>

record auth_user =
  au_id :: uuid
  au_email :: string
  raw_user_meta_data :: "(string \<times> string) list"

record profile =
  p_id :: uuid
  p_email :: string
  p_full_name :: "string option"
  p_avatar_url :: "string option"
  p_created_at :: timestamp
  p_updated_at :: timestamp

record user_role =
  ur_id :: uuid
  ur_user_id :: uuid
  ur_role :: app_role
  ur_created_at :: timestamp

text \<open>
  \<^verbatim>\<open>priority INTEGER DEFAULT 1 CHECK (priority >= 1 AND priority <= 5)\<close> carries no
  \<^verbatim>\<open>NOT NULL\<close>, so the column is nullable.
\<close>

record task =
  t_id :: uuid
  t_title :: string
  t_description :: "string option"
  t_status :: task_status
  t_priority :: "int option"
  t_created_by :: uuid
  t_assigned_to :: "uuid option"
  t_due_date :: "timestamp option"
  t_created_at :: timestamp
  t_updated_at :: timestamp

text \<open>
  \<^verbatim>\<open>old_value\<close> and \<^verbatim>\<open>new_value\<close> are JSONB columns; the hooks store the JSON of a
  task row in them, so a snapshot is a \<^typ>\<open>task\<close>.
\<close>

record activity_log =
  al_id :: uuid
  al_task_id :: uuid
  al_user_id :: "uuid option"
  al_action :: string
  al_old_value :: "task option"
  al_new_value :: "task option"
  al_created_at :: timestamp

record store =
  users :: "auth_user list"
  profiles :: "profile list"
  user_roles :: "user_role list"
  tasks :: "task list"
  activity_logs :: "activity_log list"

text \<open>
  What a request can come back with. \<open>NotAuthenticated\<close> is the hooks' own
  \<^verbatim>\<open>new Error('Not authenticated')\<close>; the others are errors of the database:
  \<open>Unauthorized\<close> a row that row-level security refuses (SQLSTATE 42501),
  \<open>NotSingleRow\<close> the failure of \<^verbatim>\<open>.single()\<close> when the statement returns no row or
  several, \<open>ConstraintViolation c\<close> a violated NOT NULL, CHECK, UNIQUE or FOREIGN KEY
  constraint on column \<open>c\<close>, \<open>InvalidEnumValue v\<close> a text \<open>v\<close> that is not a label
  of the enum it is cast to (SQLSTATE 22P02), \<open>NumericValueOutOfRange c\<close> a number
  given for column \<open>c\<close> that its type cannot hold (SQLSTATE 22003).
\<close>

datatype error =
    NotAuthenticated
  | Unauthorized
  | NotSingleRow
  | ConstraintViolation string
  | InvalidEnumValue string
  | NumericValueOutOfRange string

section \<open>Role functions\<close>

text \<open>
  \<^verbatim>\<open>has_role(_user_id, _role)\<close>:
  \<^verbatim>\<open>SELECT EXISTS (SELECT 1 FROM public.user_roles WHERE user_id = _user_id AND role = _role)\<close>
\<close>

definition has_role :: "store \<Rightarrow> uuid \<Rightarrow> app_role \<Rightarrow> bool" where
  "has_role s uid rl = list_ex (\<lambda>r. ur_user_id r = uid \<and> ur_role r = rl) (user_roles s)"

text \<open>
  \<^verbatim>\<open>get_user_role(_user_id)\<close>:
  \<^verbatim>\<open>SELECT role FROM public.user_roles WHERE user_id = _user_id LIMIT 1\<close>.
  The query has no \<^verbatim>\<open>ORDER BY\<close>, so SQL leaves open which of the matching rows
  \<^verbatim>\<open>LIMIT 1\<close> keeps: the function's value is any one of them, and NULL when there is
  none. The model gives the set of values the query may return.
\<close>

definition get_user_role :: "store \<Rightarrow> uuid \<Rightarrow> app_role option set" where
  "get_user_role s uid =
     (let rows = filter (\<lambda>r. ur_user_id r = uid) (user_roles s)
      in if rows = [] then {None} else set (map (\<lambda>r. Some (ur_role r)) rows))"

section \<open>Row-level security\<close>

text \<open>
  A \<^verbatim>\<open>CREATE POLICY\<close> statement names the command it governs and gives a
  \<^verbatim>\<open>USING\<close> expression, a \<^verbatim>\<open>WITH CHECK\<close> expression, or both. The expressions
  read the database, the caller (\<^verbatim>\<open>auth.uid()\<close>) and the row.
\<close>

datatype command = SELECT | INSERT | UPDATE | DELETE

record 'r policy =
  pol_cmd :: command
  pol_using :: "(store \<Rightarrow> uuid \<Rightarrow> 'r \<Rightarrow> bool) option"
  pol_with_check :: "(store \<Rightarrow> uuid \<Rightarrow> 'r \<Rightarrow> bool) option"

text \<open>
  PostgreSQL's rules for the policies of a table with row-level security enabled, all of
  them permissive (the default of \<^verbatim>\<open>CREATE POLICY\<close>) and granted to
  \<^verbatim>\<open>authenticated\<close>:
  \<^item> an existing row is visible to a command when the \<^verbatim>\<open>USING\<close> expression of at
    least one policy for that command is true of it; with no policy for the command,
    no row is visible;
  \<^item> a new row (of an INSERT, or the result of an UPDATE) is accepted when the
    \<^verbatim>\<open>WITH CHECK\<close> expression of at least one policy for that command is true of it;
  \<^item> a policy declared with \<^verbatim>\<open>USING\<close> only uses that expression for \<^verbatim>\<open>WITH CHECK\<close>
    as well;
  \<^item> an expression that evaluates to NULL counts as false: \<^verbatim>\<open>assigned_to = auth.uid()\<close>
    is not true of a row whose \<^verbatim>\<open>assigned_to\<close> is NULL.
\<close>

definition using_expr :: "'r policy \<Rightarrow> store \<Rightarrow> uuid \<Rightarrow> 'r \<Rightarrow> bool" where
  "using_expr p s uid r = (case pol_using p of None \<Rightarrow> True | Some e \<Rightarrow> e s uid r)"

definition check_expr :: "'r policy \<Rightarrow> store \<Rightarrow> uuid \<Rightarrow> 'r \<Rightarrow> bool" where
  "check_expr p s uid r =
     (case pol_with_check p of Some e \<Rightarrow> e s uid r | None \<Rightarrow> using_expr p s uid r)"

definition rls_using :: "'r policy list \<Rightarrow> command \<Rightarrow> store \<Rightarrow> uuid \<Rightarrow> 'r \<Rightarrow> bool" where
  "rls_using ps c s uid r = list_ex (\<lambda>p. pol_cmd p = c \<and> using_expr p s uid r) ps"

definition rls_check :: "'r policy list \<Rightarrow> command \<Rightarrow> store \<Rightarrow> uuid \<Rightarrow> 'r \<Rightarrow> bool" where
  "rls_check ps c s uid r = list_ex (\<lambda>p. pol_cmd p = c \<and> check_expr p s uid r) ps"

subsection \<open>Task policies\<close>

text \<open>
  \<^verbatim>\<open>"Users can view assigned tasks or own tasks" FOR SELECT
    USING (assigned_to = auth.uid() OR created_by = auth.uid())\<close>
\<close>

definition users_can_view_assigned_tasks_or_own_tasks :: "task policy" where
  "users_can_view_assigned_tasks_or_own_tasks =
     \<lparr>pol_cmd = SELECT,
      pol_using = Some (\<lambda>s uid t. t_assigned_to t = Some uid \<or> t_created_by t = uid),
      pol_with_check = None\<rparr>"

text \<open>
  \<^verbatim>\<open>"Managers can create tasks" FOR INSERT
    WITH CHECK (public.has_role(auth.uid(), 'manager') AND created_by = auth.uid())\<close>
\<close>

definition managers_can_create_tasks :: "task policy" where
  "managers_can_create_tasks =
     \<lparr>pol_cmd = INSERT,
      pol_using = None,
      pol_with_check = Some (\<lambda>s uid t. has_role s uid manager \<and> t_created_by t = uid)\<rparr>"

text \<open>
  \<^verbatim>\<open>"Managers can update any task they created" FOR UPDATE
    USING (public.has_role(auth.uid(), 'manager') AND created_by = auth.uid())\<close>
\<close>

definition managers_can_update_any_task_they_created :: "task policy" where
  "managers_can_update_any_task_they_created =
     \<lparr>pol_cmd = UPDATE,
      pol_using = Some (\<lambda>s uid t. has_role s uid manager \<and> t_created_by t = uid),
      pol_with_check = None\<rparr>"

text \<open>
  \<^verbatim>\<open>"Users can update status of assigned tasks" FOR UPDATE
    USING (assigned_to = auth.uid())\<close>
\<close>

definition users_can_update_status_of_assigned_tasks :: "task policy" where
  "users_can_update_status_of_assigned_tasks =
     \<lparr>pol_cmd = UPDATE,
      pol_using = Some (\<lambda>s uid t. t_assigned_to t = Some uid),
      pol_with_check = None\<rparr>"

text \<open>
  \<^verbatim>\<open>"Managers can delete tasks they created" FOR DELETE
    USING (public.has_role(auth.uid(), 'manager') AND created_by = auth.uid())\<close>
\<close>

definition managers_can_delete_tasks_they_created :: "task policy" where
  "managers_can_delete_tasks_they_created =
     \<lparr>pol_cmd = DELETE,
      pol_using = Some (\<lambda>s uid t. has_role s uid manager \<and> t_created_by t = uid),
      pol_with_check = None\<rparr>"

definition tasks_policies :: "task policy list" where
  "tasks_policies =
     [users_can_view_assigned_tasks_or_own_tasks,
      managers_can_create_tasks,
      managers_can_update_any_task_they_created,
      users_can_update_status_of_assigned_tasks,
      managers_can_delete_tasks_they_created]"

subsection \<open>Policies of the other tables\<close>

text \<open>\<^verbatim>\<open>"Users can view own role" FOR SELECT USING (user_id = auth.uid())\<close>\<close>

definition users_can_view_own_role :: "user_role policy" where
  "users_can_view_own_role =
     \<lparr>pol_cmd = SELECT,
      pol_using = Some (\<lambda>s uid r. ur_user_id r = uid),
      pol_with_check = None\<rparr>"

text \<open>\<^verbatim>\<open>"Users can insert own role" FOR INSERT WITH CHECK (user_id = auth.uid())\<close>\<close>

definition users_can_insert_own_role :: "user_role policy" where
  "users_can_insert_own_role =
     \<lparr>pol_cmd = INSERT,
      pol_using = None,
      pol_with_check = Some (\<lambda>s uid r. ur_user_id r = uid)\<rparr>"

definition user_roles_policies :: "user_role policy list" where
  "user_roles_policies = [users_can_view_own_role, users_can_insert_own_role]"

text \<open>
  \<^verbatim>\<open>"Users can view activity for their tasks" FOR SELECT USING (EXISTS (
     SELECT 1 FROM public.tasks WHERE tasks.id = activity_logs.task_id
     AND (tasks.assigned_to = auth.uid() OR tasks.created_by = auth.uid())))\<close>
\<close>

definition users_can_view_activity_for_their_tasks :: "activity_log policy" where
  "users_can_view_activity_for_their_tasks =
     \<lparr>pol_cmd = SELECT,
      pol_using = Some (\<lambda>s uid l. list_ex (\<lambda>t. t_id t = al_task_id l \<and>
                          (t_assigned_to t = Some uid \<or> t_created_by t = uid)) (tasks s)),
      pol_with_check = None\<rparr>"

text \<open>
  \<^verbatim>\<open>"Authenticated users can create activity logs" FOR INSERT
    WITH CHECK (user_id = auth.uid())\<close>
\<close>

definition authenticated_users_can_create_activity_logs :: "activity_log policy" where
  "authenticated_users_can_create_activity_logs =
     \<lparr>pol_cmd = INSERT,
      pol_using = None,
      pol_with_check = Some (\<lambda>s uid l. al_user_id l = Some uid)\<rparr>"

definition activity_logs_policies :: "activity_log policy list" where
  "activity_logs_policies =
     [users_can_view_activity_for_their_tasks,
      authenticated_users_can_create_activity_logs]"

section \<open>Statements on the tables\<close>

text \<open>
  Each function below is one SQL statement sent by one request, run in a transaction of
  its own: it returns \<open>Inr\<close> with the database after the statement, or \<open>Inl\<close> with
  the error, in which case the statement is rolled back and the database is the one the
  caller passed. Values that the database draws itself are parameters: \<open>gen\<close> is the
  result of \<^verbatim>\<open>gen_random_uuid()\<close> and \<open>now\<close> that of \<^verbatim>\<open>NOW()\<close>.

  PostgreSQL checks a new row in this order: row-level security first, then the NOT NULL
  and CHECK constraints, then the unique indexes, and the foreign keys at the end of the
  statement.
\<close>

subsection \<open>tasks\<close>

text \<open>
  \<^verbatim>\<open>supabase.from('tasks').select('*')\<close>: the rows that the SELECT policy shows to the
  caller.
\<close>

definition select_tasks :: "store \<Rightarrow> uuid \<Rightarrow> task list" where
  "select_tasks s uid = filter (rls_using tasks_policies SELECT s uid) (tasks s)"

text \<open>
  The payload of an insert into \<^verbatim>\<open>tasks\<close>. \<^verbatim>\<open>title\<close> and \<^verbatim>\<open>created_by\<close> are NOT NULL
  without a default and must be given. A column with a default may be left out
  (\<open>None\<close>); \<^verbatim>\<open>priority\<close> has a default and is nullable, so it may be left out
  (\<open>None\<close>), given as NULL (\<open>Some None\<close>) or given a value.
\<close>

record task_insert =
  i_id :: "uuid option"
  i_title :: string
  i_description :: "string option"
  i_status :: "task_status option"
  i_priority :: "int option option"
  i_created_by :: uuid
  i_assigned_to :: "uuid option"
  i_due_date :: "timestamp option"
  i_created_at :: "timestamp option"
  i_updated_at :: "timestamp option"

text \<open>The row an insert builds: the given columns, and the column defaults of the table.\<close>

definition new_task_row :: "task_insert \<Rightarrow> uuid \<Rightarrow> timestamp \<Rightarrow> task" where
  "new_task_row p gen now =
     \<lparr>t_id = (case i_id p of None \<Rightarrow> gen | Some x \<Rightarrow> x),
      t_title = i_title p,
      t_description = i_description p,
      t_status = (case i_status p of None \<Rightarrow> todo | Some x \<Rightarrow> x),
      t_priority = (case i_priority p of None \<Rightarrow> Some 1 | Some x \<Rightarrow> x),
      t_created_by = i_created_by p,
      t_assigned_to = i_assigned_to p,
      t_due_date = i_due_date p,
      t_created_at = (case i_created_at p of None \<Rightarrow> now | Some x \<Rightarrow> x),
      t_updated_at = (case i_updated_at p of None \<Rightarrow> now | Some x \<Rightarrow> x)\<rparr>"

text \<open>
  \<^verbatim>\<open>CHECK (priority >= 1 AND priority <= 5)\<close>: a CHECK constraint is violated only when
  its expression is false, and on a NULL priority it is NULL.
\<close>

definition priority_check :: "task \<Rightarrow> bool" where
  "priority_check t = (case t_priority t of None \<Rightarrow> True | Some p \<Rightarrow> 1 \<le> p \<and> p \<le> 5)"

text \<open>
  \<^verbatim>\<open>priority\<close> is an \<^verbatim>\<open>INTEGER\<close> column, a 32-bit signed integer. The payload of a
  request is JSON, and the statement converts the number given for the column to that
  type before it looks at any row or policy; a number outside the range of the type
  makes the conversion, and with it the statement, fail.
\<close>

definition int4 :: "int \<Rightarrow> bool" where
  "int4 v \<longleftrightarrow> - 2147483648 \<le> v \<and> v \<le> 2147483647"

text \<open>
  The primary key of \<^verbatim>\<open>tasks\<close>, checked for a row \<open>t\<close> that is to be stored
  beside the rows \<open>others\<close>.
\<close>

definition task_pk_check :: "task list \<Rightarrow> task \<Rightarrow> error option" where
  "task_pk_check others t =
     (if t_id t \<in> set (map t_id others) then Some (ConstraintViolation ''id'') else None)"

text \<open>
  The two foreign keys of \<^verbatim>\<open>tasks\<close>, checked for a row \<open>t\<close> that is to be stored.
  \<open>old\<close> is the row that \<open>t\<close> replaces, if any: PostgreSQL looks a foreign key up
  again only when an update changed the referencing column.
\<close>

definition task_fk_check :: "store \<Rightarrow> task option \<Rightarrow> task \<Rightarrow> error option" where
  "task_fk_check s old t =
     (if (case old of None \<Rightarrow> True | Some t0 \<Rightarrow> t_created_by t0 \<noteq> t_created_by t) \<and>
         t_created_by t \<notin> set (map au_id (users s))
        then Some (ConstraintViolation ''created_by'')
      else if (case old of None \<Rightarrow> True | Some t0 \<Rightarrow> t_assigned_to t0 \<noteq> t_assigned_to t) \<and>
              (case t_assigned_to t of None \<Rightarrow> False
               | Some a \<Rightarrow> a \<notin> set (map au_id (users s)))
        then Some (ConstraintViolation ''assigned_to'')
      else None)"

text \<open>The primary key first, then the foreign keys.\<close>

definition task_keys_check :: "store \<Rightarrow> task list \<Rightarrow> task option \<Rightarrow> task \<Rightarrow> error option" where
  "task_keys_check s others old t =
     (case task_pk_check others t of Some e \<Rightarrow> Some e | None \<Rightarrow> task_fk_check s old t)"

text \<open>
  \<^verbatim>\<open>supabase.from('tasks').insert(p).select().single()\<close>: an
  \<^verbatim>\<open>INSERT ... RETURNING\<close>. The priority given must convert to the column's type.
  The new row must pass the INSERT policy and, because it is returned, the SELECT policy.
\<close>

definition insert_task ::
  "store \<Rightarrow> uuid \<Rightarrow> task_insert \<Rightarrow> uuid \<Rightarrow> timestamp \<Rightarrow> error + (task \<times> store)" where
  "insert_task s uid p gen now =
     (let row = new_task_row p gen now
      in if (case i_priority p of Some (Some v) \<Rightarrow> \<not> int4 v | _ \<Rightarrow> False)
           then Inl (NumericValueOutOfRange ''priority'')
         else if \<not> (rls_check tasks_policies INSERT s uid row \<and>
                     rls_using tasks_policies SELECT s uid row)
           then Inl Unauthorized
         else if \<not> priority_check row then Inl (ConstraintViolation ''priority'')
         else (case task_keys_check s (tasks s) None row of
                 Some e \<Rightarrow> Inl e
               | None \<Rightarrow> Inr (row, s\<lparr>tasks := tasks s @ [row]\<rparr>)))"

text \<open>
  The payload of an update, \<^verbatim>\<open>Partial<Task>\<close> of \<^verbatim>\<open>src/types/task.ts\<close>: every field
  of \<^verbatim>\<open>Task\<close> may be absent (\<open>None\<close>: the column is not set); a field of type
  \<^verbatim>\<open>string | null\<close> may be set to null (\<open>Some None\<close>).
\<close>

record task_updates =
  u_id :: "uuid option"
  u_title :: "string option"
  u_description :: "string option option"
  u_status :: "task_status option"
  u_priority :: "int option"
  u_created_by :: "uuid option"
  u_assigned_to :: "uuid option option"
  u_due_date :: "timestamp option option"
  u_created_at :: "timestamp option"
  u_updated_at :: "timestamp option"

text \<open>\<^verbatim>\<open>UPDATE tasks SET ...\<close>: the columns of the payload replace those of the row.\<close>

definition apply_updates :: "task_updates \<Rightarrow> task \<Rightarrow> task" where
  "apply_updates u t =
     \<lparr>t_id = (case u_id u of None \<Rightarrow> t_id t | Some x \<Rightarrow> x),
      t_title = (case u_title u of None \<Rightarrow> t_title t | Some x \<Rightarrow> x),
      t_description = (case u_description u of None \<Rightarrow> t_description t | Some x \<Rightarrow> x),
      t_status = (case u_status u of None \<Rightarrow> t_status t | Some x \<Rightarrow> x),
      t_priority = (case u_priority u of None \<Rightarrow> t_priority t | Some x \<Rightarrow> Some x),
      t_created_by = (case u_created_by u of None \<Rightarrow> t_created_by t | Some x \<Rightarrow> x),
      t_assigned_to = (case u_assigned_to u of None \<Rightarrow> t_assigned_to t | Some x \<Rightarrow> x),
      t_due_date = (case u_due_date u of None \<Rightarrow> t_due_date t | Some x \<Rightarrow> x),
      t_created_at = (case u_created_at u of None \<Rightarrow> t_created_at t | Some x \<Rightarrow> x),
      t_updated_at = (case u_updated_at u of None \<Rightarrow> t_updated_at t | Some x \<Rightarrow> x)\<rparr>"

text \<open>
  The trigger \<^verbatim>\<open>update_tasks_updated_at BEFORE UPDATE ON public.tasks\<close> runs
  \<^verbatim>\<open>update_updated_at_column()\<close>: \<^verbatim>\<open>NEW.updated_at = NOW(); RETURN NEW;\<close>
\<close>

definition update_updated_at_column :: "timestamp \<Rightarrow> task \<Rightarrow> task" where
  "update_updated_at_column now new = new\<lparr>t_updated_at := now\<rparr>"

text \<open>
  The rows of \<^verbatim>\<open>tasks\<close> that a statement with \<^verbatim>\<open>.eq('id', tid)\<close> for command \<open>c\<close>
  acts on: those with that id which the policies for \<open>c\<close> show to the caller and,
  because the WHERE clause reads the row, the SELECT policy shows too.
\<close>

definition target :: "store \<Rightarrow> uuid \<Rightarrow> command \<Rightarrow> uuid \<Rightarrow> task \<Rightarrow> bool" where
  "target s uid c tid t \<longleftrightarrow>
     t_id t = tid \<and> rls_using tasks_policies c s uid t \<and> rls_using tasks_policies SELECT s uid t"

text \<open>
  \<^verbatim>\<open>activity_logs.task_id REFERENCES public.tasks(id) ON DELETE CASCADE\<close> says nothing
  for updates, so a task id that a log row references cannot be changed. Like the other
  foreign keys it is checked at the end of the statement, after the primary key.
\<close>

definition referenced_by_log :: "store \<Rightarrow> uuid \<Rightarrow> bool" where
  "referenced_by_log s tid = list_ex (\<lambda>l. al_task_id l = tid) (activity_logs s)"

text \<open>
  \<^verbatim>\<open>supabase.from('tasks').update(u).eq('id', tid).select().single()\<close>: an
  \<^verbatim>\<open>UPDATE ... WHERE id = tid RETURNING\<close>. The priority given must convert to the
  column's type. The statement acts on the target rows; the trigger stamps the new row;
  the new row must pass the check of the UPDATE policies and, being returned, the SELECT
  policy; then the CHECK constraint, the primary key and the foreign keys are checked.
  \<^verbatim>\<open>.single()\<close> fails unless exactly one row comes back.
\<close>

definition update_task ::
  "store \<Rightarrow> uuid \<Rightarrow> uuid \<Rightarrow> task_updates \<Rightarrow> timestamp \<Rightarrow> error + (task \<times> store)" where
  "update_task s uid tid u now =
     (if (case u_priority u of Some v \<Rightarrow> \<not> int4 v | None \<Rightarrow> False)
        then Inl (NumericValueOutOfRange ''priority'')
      else
       (case filter (target s uid UPDATE tid) (tasks s) of
          [t] \<Rightarrow>
            (let row = update_updated_at_column now (apply_updates u t)
             in if \<not> (rls_check tasks_policies UPDATE s uid row \<and>
                       rls_using tasks_policies SELECT s uid row)
                  then Inl Unauthorized
                else if \<not> priority_check row then Inl (ConstraintViolation ''priority'')
                else (case task_pk_check (filter (\<lambda>x. \<not> target s uid UPDATE tid x) (tasks s))
                             row of
                        Some e \<Rightarrow> Inl e
                      | None \<Rightarrow>
                          if t_id row \<noteq> t_id t \<and> referenced_by_log s (t_id t)
                            then Inl (ConstraintViolation ''task_id'')
                          else (case task_fk_check s (Some t) row of
                                  Some e \<Rightarrow> Inl e
                                | None \<Rightarrow>
                                    Inr (row,
                                         s\<lparr>tasks := map (\<lambda>x. if target s uid UPDATE tid x
                                                              then row else x)
                                                        (tasks s)\<rparr>))))
        | _ \<Rightarrow> Inl NotSingleRow))"

text \<open>
  \<^verbatim>\<open>supabase.from('tasks').delete().eq('id', tid)\<close>: the target rows are deleted, and
  with them, by \<^verbatim>\<open>task_id ... REFERENCES public.tasks(id) ON DELETE CASCADE\<close>, the
  activity log rows that reference them. A statement that finds no target row deletes
  nothing and is no error.
\<close>

definition delete_task :: "store \<Rightarrow> uuid \<Rightarrow> uuid \<Rightarrow> store" where
  "delete_task s uid tid =
     (let gone = filter (target s uid DELETE tid) (tasks s)
      in s\<lparr>tasks := filter (\<lambda>t. \<not> target s uid DELETE tid t) (tasks s),
           activity_logs := filter (\<lambda>l. al_task_id l \<notin> set (map t_id gone)) (activity_logs s)\<rparr>)"

subsection \<open>activity\_logs\<close>

text \<open>
  \<^verbatim>\<open>supabase.from('activity_logs').insert([{task_id, user_id, action, old_value,
  new_value}])\<close>, with no \<^verbatim>\<open>.select()\<close>: a plain INSERT.
\<close>

definition insert_activity_log ::
  "store \<Rightarrow> uuid \<Rightarrow> uuid \<Rightarrow> uuid option \<Rightarrow> string \<Rightarrow> task option \<Rightarrow> task option \<Rightarrow>
     uuid \<Rightarrow> timestamp \<Rightarrow> error + store" where
  "insert_activity_log s uid task_id user_id action old_value new_value gen now =
     (let row = \<lparr>al_id = gen, al_task_id = task_id, al_user_id = user_id, al_action = action,
                 al_old_value = old_value, al_new_value = new_value, al_created_at = now\<rparr>
      in if \<not> rls_check activity_logs_policies INSERT s uid row then Inl Unauthorized
         else if gen \<in> set (map al_id (activity_logs s)) then Inl (ConstraintViolation ''id'')
         else if task_id \<notin> set (map t_id (tasks s)) then Inl (ConstraintViolation ''task_id'')
         else if (case user_id of None \<Rightarrow> False | Some x \<Rightarrow> x \<notin> set (map au_id (users s)))
           then Inl (ConstraintViolation ''user_id'')
         else Inr (s\<lparr>activity_logs := activity_logs s @ [row]\<rparr>))"

subsection \<open>user\_roles\<close>

text \<open>
  An insert into \<^verbatim>\<open>user_roles\<close> by an authenticated caller, which the policy
  "Users can insert own role" governs. \<^verbatim>\<open>role\<close> defaults to \<^verbatim>\<open>'user'\<close>; the table
  has the primary key \<^verbatim>\<open>id\<close> and \<^verbatim>\<open>UNIQUE (user_id, role)\<close>.
\<close>

definition user_roles_keys_check :: "store \<Rightarrow> user_role \<Rightarrow> error option" where
  "user_roles_keys_check s r =
     (if ur_id r \<in> set (map ur_id (user_roles s)) then Some (ConstraintViolation ''id'')
      else if list_ex (\<lambda>x. ur_user_id x = ur_user_id r \<and> ur_role x = ur_role r) (user_roles s)
        then Some (ConstraintViolation ''user_id, role'')
      else if ur_user_id r \<notin> set (map au_id (users s))
        then Some (ConstraintViolation ''user_id'')
      else None)"

definition insert_user_role ::
  "store \<Rightarrow> uuid \<Rightarrow> uuid \<Rightarrow> app_role option \<Rightarrow> uuid \<Rightarrow> timestamp \<Rightarrow> error + store" where
  "insert_user_role s uid user_id rl gen now =
     (let row = \<lparr>ur_id = gen, ur_user_id = user_id,
                 ur_role = (case rl of None \<Rightarrow> user | Some x \<Rightarrow> x), ur_created_at = now\<rparr>
      in if \<not> rls_check user_roles_policies INSERT s uid row then Inl Unauthorized
         else (case user_roles_keys_check s row of
                 Some e \<Rightarrow> Inl e
               | None \<Rightarrow> Inr (s\<lparr>user_roles := user_roles s @ [row]\<rparr>)))"

section \<open>Triggers and referential actions on auth.users\<close>

text \<open>
  The cast \<^verbatim>\<open>(...)::app_role\<close> of a text: the text must be one of the labels of the
  enum, otherwise the cast raises an error.
\<close>

definition app_role_of_text :: "string \<Rightarrow> error + app_role" where
  "app_role_of_text v =
     (if v = ''manager'' then Inr manager
      else if v = ''user'' then Inr user
      else Inl (InvalidEnumValue v))"

text \<open>
  \<^verbatim>\<open>handle_new_user()\<close>, run by the trigger \<^verbatim>\<open>on_auth_user_created AFTER INSERT ON
  auth.users FOR EACH ROW\<close> with the inserted row as \<^verbatim>\<open>NEW\<close>. The function is
  \<^verbatim>\<open>SECURITY DEFINER\<close>: it runs as its owner, to whom row-level security does not
  apply. \<^verbatim>\<open>->>\<close> gives the member of the JSON object as text, or NULL when there is no
  such member; the cast of NULL is NULL; \<^verbatim>\<open>COALESCE\<close> replaces a NULL.

  \<^verbatim>\<open>INSERT INTO public.profiles (id, email, full_name)
    VALUES (NEW.id, NEW.email, COALESCE(NEW.raw_user_meta_data->>'full_name', ''));
  INSERT INTO public.user_roles (user_id, role)
    VALUES (NEW.id, COALESCE((NEW.raw_user_meta_data->>'role')::app_role, 'user'));\<close>

  The first insert checks the primary key of \<^verbatim>\<open>profiles\<close> and its foreign key to
  \<^verbatim>\<open>auth.users\<close>; the second the keys of \<^verbatim>\<open>user_roles\<close>.
\<close>

definition handle_new_user :: "store \<Rightarrow> auth_user \<Rightarrow> uuid \<Rightarrow> timestamp \<Rightarrow> error + store" where
  "handle_new_user s new gen now =
     (let prof = \<lparr>p_id = au_id new, p_email = au_email new,
                  p_full_name = Some (case map_of (raw_user_meta_data new) ''full_name'' of
                                        None \<Rightarrow> [] | Some n \<Rightarrow> n),
                  p_avatar_url = None, p_created_at = now, p_updated_at = now\<rparr>
      in if au_id new \<in> set (map p_id (profiles s)) then Inl (ConstraintViolation ''id'')
         else if au_id new \<notin> set (map au_id (users s)) then Inl (ConstraintViolation ''id'')
         else (case (case map_of (raw_user_meta_data new) ''role'' of
                       None \<Rightarrow> Inr user
                     | Some v \<Rightarrow> app_role_of_text v) of
                 Inl e \<Rightarrow> Inl e
               | Inr rl \<Rightarrow>
                   (let row = \<lparr>ur_id = gen, ur_user_id = au_id new, ur_role = rl,
                               ur_created_at = now\<rparr>
                    in case user_roles_keys_check s row of
                         Some e \<Rightarrow> Inl e
                       | None \<Rightarrow> Inr (s\<lparr>profiles := profiles s @ [prof],
                                          user_roles := user_roles s @ [row]\<rparr>))))"

text \<open>
  Registration: the authentication service inserts the identity into \<^verbatim>\<open>auth.users\<close>,
  whose primary key is \<^verbatim>\<open>id\<close>, and the trigger runs in the same statement. An error
  raised by the trigger aborts the insert.
\<close>

definition insert_auth_user :: "store \<Rightarrow> auth_user \<Rightarrow> uuid \<Rightarrow> timestamp \<Rightarrow> error + store" where
  "insert_auth_user s new gen now =
     (if au_id new \<in> set (map au_id (users s)) then Inl (ConstraintViolation ''id'')
      else handle_new_user (s\<lparr>users := users s @ [new]\<rparr>) new gen now)"

text \<open>
  Deleting the row \<open>x\<close> of \<^verbatim>\<open>auth.users\<close> runs the referential actions declared on
  the foreign keys to it:
  \<^item> \<^verbatim>\<open>profiles.id\<close>, \<^verbatim>\<open>user_roles.user_id\<close> and \<^verbatim>\<open>tasks.created_by\<close> are
    \<^verbatim>\<open>ON DELETE CASCADE\<close>: the rows are deleted, and with a task its activity log rows
    (\<^verbatim>\<open>activity_logs.task_id ON DELETE CASCADE\<close>);
  \<^item> \<^verbatim>\<open>tasks.assigned_to\<close> and \<^verbatim>\<open>activity_logs.user_id\<close> are \<^verbatim>\<open>ON DELETE SET NULL\<close>:
    the column is set to NULL by an update of the row, and on \<^verbatim>\<open>tasks\<close> that update
    fires the trigger \<^verbatim>\<open>update_tasks_updated_at\<close>.
\<close>

definition delete_auth_user :: "store \<Rightarrow> uuid \<Rightarrow> timestamp \<Rightarrow> store" where
  "delete_auth_user s x now =
     (let gone = filter (\<lambda>t. t_created_by t = x) (tasks s)
      in \<lparr>users = filter (\<lambda>u. au_id u \<noteq> x) (users s),
          profiles = filter (\<lambda>p. p_id p \<noteq> x) (profiles s),
          user_roles = filter (\<lambda>r. ur_user_id r \<noteq> x) (user_roles s),
          tasks = map (\<lambda>t. if t_assigned_to t = Some x
                            then update_updated_at_column now (t\<lparr>t_assigned_to := None\<rparr>)
                            else t)
                      (filter (\<lambda>t. t_created_by t \<noteq> x) (tasks s)),
          activity_logs = map (\<lambda>l. if al_user_id l = Some x then l\<lparr>al_user_id := None\<rparr> else l)
                              (filter (\<lambda>l. al_task_id l \<notin> set (map t_id gone))
                                      (activity_logs s))\<rparr>)"

section \<open>The hook useTasks\<close>

text \<open>
  The hook keeps the list \<^verbatim>\<open>tasks\<close> of the rows it fetched last (React state, called
  \<open>cache\<close> below) and reads the signed-in user from the auth context (\<open>usr\<close>,
  \<open>None\<close> when nobody is signed in). Each \<^verbatim>\<open>await supabase.from(...)\<close> is one request
  to the database.
\<close>

text \<open>
  \<^verbatim>\<open>fetchTasks\<close>: \<^verbatim>\<open>if (!user) return;\<close> then
  \<^verbatim>\<open>select('*').order('created_at', { ascending: false })\<close> and \<^verbatim>\<open>setTasks(data)\<close>.
  The result is the new value of the list. The query orders by \<^verbatim>\<open>created_at\<close> alone
  and leaves the order of rows with the same \<^verbatim>\<open>created_at\<close> open; here they keep the
  order in which they are stored.
\<close>

definition fetchTasks :: "store \<Rightarrow> uuid option \<Rightarrow> task list \<Rightarrow> task list" where
  "fetchTasks s usr cache =
     (case usr of
        None \<Rightarrow> cache
      | Some uid \<Rightarrow> sort_key (\<lambda>t. - int (t_created_at t)) (select_tasks s uid))"

text \<open>
  The argument of \<^verbatim>\<open>createTask\<close>:
  \<^verbatim>\<open>Omit<Task, 'id' | 'created_at' | 'updated_at' | 'created_by'>\<close>. A priority is an
  integer of any size: the form offers the values 1 to 5 and reads the choice with
  \<^verbatim>\<open>parseInt\<close>, and the hook passes on whatever it is given.
\<close>

record new_task =
  n_title :: string
  n_description :: "string option"
  n_status :: task_status
  n_priority :: int
  n_assigned_to :: "uuid option"
  n_due_date :: "timestamp option"

text \<open>\<^verbatim>\<open>{ ...task, created_by: user.id }\<close>\<close>

definition with_created_by :: "new_task \<Rightarrow> uuid \<Rightarrow> task_insert" where
  "with_created_by task uid =
     \<lparr>i_id = None, i_title = n_title task, i_description = n_description task,
      i_status = Some (n_status task), i_priority = Some (Some (n_priority task)),
      i_created_by = uid, i_assigned_to = n_assigned_to task, i_due_date = n_due_date task,
      i_created_at = None, i_updated_at = None\<rparr>"

text \<open>
  \<^verbatim>\<open>createTask\<close>. The first request inserts the task and returns \<^verbatim>\<open>{ error }\<close> when
  it fails. The second request inserts the activity log row
  \<^verbatim>\<open>{ task_id: data.id, user_id: user.id, action: 'created', new_value: data }\<close>; its
  result is awaited and not looked at. \<open>gen\<close> and \<open>now\<close> are the id and the time
  the database draws in the first request, \<open>gen'\<close> and \<open>now'\<close> in the second. The
  function returns what the hook returns, and the database after it.
\<close>

definition createTask ::
  "store \<Rightarrow> uuid option \<Rightarrow> new_task \<Rightarrow> uuid \<Rightarrow> timestamp \<Rightarrow> uuid \<Rightarrow> timestamp \<Rightarrow>
     (error + task) \<times> store" where
  "createTask s usr task gen now gen' now' =
     (case usr of
        None \<Rightarrow> (Inl NotAuthenticated, s)
      | Some uid \<Rightarrow>
          (case insert_task s uid (with_created_by task uid) gen now of
             Inl e \<Rightarrow> (Inl e, s)
           | Inr (d, s1) \<Rightarrow>
               (case insert_activity_log s1 uid (t_id d) (Some uid) ''created'' None (Some d)
                       gen' now' of
                  Inl e \<Rightarrow> (Inr d, s1)
                | Inr s2 \<Rightarrow> (Inr d, s2))))"

text \<open>
  \<^verbatim>\<open>updateTask\<close>. \<^verbatim>\<open>oldTask = tasks.find(t => t.id === id)\<close> is looked up in the
  hook's list, not in the database; when it is \<^verbatim>\<open>undefined\<close> the member is left out of
  the JSON sent and the column stays NULL. The first request updates the task, the second
  inserts \<^verbatim>\<open>{ task_id: id, user_id: user.id, action: 'updated', old_value: oldTask,
  new_value: data }\<close>, and its result is not looked at.
\<close>

definition updateTask ::
  "store \<Rightarrow> uuid option \<Rightarrow> task list \<Rightarrow> uuid \<Rightarrow> task_updates \<Rightarrow> timestamp \<Rightarrow> uuid \<Rightarrow> timestamp \<Rightarrow>
     (error + task) \<times> store" where
  "updateTask s usr cache tid updates now gen' now' =
     (case usr of
        None \<Rightarrow> (Inl NotAuthenticated, s)
      | Some uid \<Rightarrow>
          (let oldTask = find (\<lambda>t. t_id t = tid) cache
           in case update_task s uid tid updates now of
                Inl e \<Rightarrow> (Inl e, s)
              | Inr (d, s1) \<Rightarrow>
                  (case insert_activity_log s1 uid tid (Some uid) ''updated'' oldTask (Some d)
                          gen' now' of
                     Inl e \<Rightarrow> (Inr d, s1)
                   | Inr s2 \<Rightarrow> (Inr d, s2))))"

definition no_updates :: task_updates where
  "no_updates =
     \<lparr>u_id = None, u_title = None, u_description = None, u_status = None, u_priority = None,
      u_created_by = None, u_assigned_to = None, u_due_date = None, u_created_at = None,
      u_updated_at = None\<rparr>"

text \<open>\<^verbatim>\<open>updateTaskStatus = (id, status) => updateTask(id, { status })\<close>\<close>

definition updateTaskStatus ::
  "store \<Rightarrow> uuid option \<Rightarrow> task list \<Rightarrow> uuid \<Rightarrow> task_status \<Rightarrow> timestamp \<Rightarrow> uuid \<Rightarrow> timestamp \<Rightarrow>
     (error + task) \<times> store" where
  "updateTaskStatus s usr cache tid status now gen' now' =
     updateTask s usr cache tid (no_updates\<lparr>u_status := Some status\<rparr>) now gen' now'"

text \<open>
  \<^verbatim>\<open>deleteTask\<close>: one request, \<^verbatim>\<open>delete().eq('id', id)\<close>; the hook returns
  \<^verbatim>\<open>{ error: null }\<close> whether or not a row was deleted.
\<close>

definition deleteTask :: "store \<Rightarrow> uuid option \<Rightarrow> uuid \<Rightarrow> error option \<times> store" where
  "deleteTask s usr tid =
     (case usr of
        None \<Rightarrow> (Some NotAuthenticated, s)
      | Some uid \<Rightarrow> (None, delete_task s uid tid))"

section \<open>The form TaskForm\<close>

text \<open>
  \<^verbatim>\<open>taskSchema\<close>, a zod object schema, as the list of issues (path, message) that
  \<^verbatim>\<open>safeParse\<close> reports, in the order of the schema's keys. The length of a string is
  its number of UTF-16 code units, one \<^typ>\<open>char\<close> each here.

  \<^verbatim>\<open>title: z.string().min(1, 'Title is required').max(200, 'Title must be less than 200 characters'),
  description: z.string().max(2000, 'Description must be less than 2000 characters').optional(),
  status: z.enum(['todo', 'in_progress', 'completed']),
  priority: z.number().min(1).max(5),
  assigned_to: z.string().nullable(),
  due_date: z.string().nullable()\<close>

  \<^verbatim>\<open>.optional()\<close> admits \<^verbatim>\<open>undefined\<close>, not \<^verbatim>\<open>null\<close>: a null description is reported
  as of the wrong type.
\<close>

definition taskSchema :: "new_task \<Rightarrow> (string \<times> string) list" where
  "taskSchema d =
     (if length (n_title d) < 1 then [(''title'', ''Title is required'')]
      else if length (n_title d) > 200
        then [(''title'', ''Title must be less than 200 characters'')]
      else []) @
     (case n_description d of
        None \<Rightarrow> [(''description'', ''Expected string, received null'')]
      | Some x \<Rightarrow>
          if length x > 2000
          then [(''description'', ''Description must be less than 2000 characters'')]
          else []) @
     (if n_priority d < 1 then [(''priority'', ''Number must be greater than or equal to 1'')]
      else if n_priority d > 5 then [(''priority'', ''Number must be less than or equal to 5'')]
      else [])"

text \<open>The state \<^verbatim>\<open>formData\<close> of the form.\<close>

record form_data =
  f_title :: string
  f_description :: string
  f_status :: task_status
  f_priority :: int
  f_assigned_to :: "uuid option"
  f_due_date :: "timestamp option"

text \<open>
  The initial \<^verbatim>\<open>formData\<close>, also set when the form opens without a task to edit.
\<close>

definition initial_form_data :: form_data where
  "initial_form_data =
     \<lparr>f_title = [], f_description = [], f_status = todo, f_priority = 3,
      f_assigned_to = None, f_due_date = None\<rparr>"

text \<open>
  \<^verbatim>\<open>handleSubmit\<close>:
  \<^verbatim>\<open>data = { ...formData, due_date: ..., description: formData.description || null }\<close>;
  when the schema reports issues they become the form's \<^verbatim>\<open>errors\<close>, keyed by field
  (\<open>Inl\<close>), and the function returns; otherwise \<^verbatim>\<open>onSubmit(data)\<close> is called
  (\<open>Inr\<close>).
\<close>

definition handleSubmit :: "form_data \<Rightarrow> (string \<times> string) list + new_task" where
  "handleSubmit fd =
     (let data = \<lparr>n_title = f_title fd,
                  n_description = (if f_description fd = [] then None
                                   else Some (f_description fd)),
                  n_status = f_status fd, n_priority = f_priority fd,
                  n_assigned_to = f_assigned_to fd, n_due_date = f_due_date fd\<rparr>
      in if taskSchema data \<noteq> [] then Inl (taskSchema data) else Inr data)"

section \<open>The update rule of the specification\<close>

text \<open>
  The predicate that the specification gives for an update of a task by an identity:
  (role is manager and identity is \<^verbatim>\<open>created_by\<close>) or (identity is
  \<^verbatim>\<open>assigned_to\<close>). It is stated here to be compared with what the policies and
  \<^const>\<open>update_task\<close> do; holding the role manager is \<^const>\<open>has_role\<close>, as in the
  policies.
\<close>

definition spec_update_predicate :: "store \<Rightarrow> uuid \<Rightarrow> task \<Rightarrow> bool" where
  "spec_update_predicate s uid t \<longleftrightarrow>
     (has_role s uid manager \<and> uid = t_created_by t) \<or> t_assigned_to t = Some uid"

section \<open>Example databases\<close>

text \<open>
  A manager (identity 1) and two users (2 and 3), registered with their profiles and
  roles; the manager has created task 10 and assigned it to user 2, and the creation has
  been logged.
\<close>

definition ex_users :: "auth_user list" where
  "ex_users =
     [\<lparr>au_id = 1, au_email = ''m@example.org'', raw_user_meta_data = [(''role'', ''manager'')]\<rparr>,
      \<lparr>au_id = 2, au_email = ''u@example.org'', raw_user_meta_data = [(''role'', ''user'')]\<rparr>,
      \<lparr>au_id = 3, au_email = ''v@example.org'', raw_user_meta_data = []\<rparr>]"

definition ex_profiles :: "profile list" where
  "ex_profiles =
     [\<lparr>p_id = 1, p_email = ''m@example.org'', p_full_name = Some [], p_avatar_url = None,
       p_created_at = 0, p_updated_at = 0\<rparr>,
      \<lparr>p_id = 2, p_email = ''u@example.org'', p_full_name = Some [], p_avatar_url = None,
       p_created_at = 0, p_updated_at = 0\<rparr>,
      \<lparr>p_id = 3, p_email = ''v@example.org'', p_full_name = Some [], p_avatar_url = None,
       p_created_at = 0, p_updated_at = 0\<rparr>]"

definition ex_roles :: "user_role list" where
  "ex_roles =
     [\<lparr>ur_id = 101, ur_user_id = 1, ur_role = manager, ur_created_at = 0\<rparr>,
      \<lparr>ur_id = 102, ur_user_id = 2, ur_role = user, ur_created_at = 0\<rparr>,
      \<lparr>ur_id = 103, ur_user_id = 3, ur_role = user, ur_created_at = 0\<rparr>]"

definition ex_task :: task where
  "ex_task =
     \<lparr>t_id = 10, t_title = ''Write spec'', t_description = None, t_status = todo,
      t_priority = Some 3, t_created_by = 1, t_assigned_to = Some 2, t_due_date = None,
      t_created_at = 1, t_updated_at = 1\<rparr>"

definition ex_log :: activity_log where
  "ex_log =
     \<lparr>al_id = 200, al_task_id = 10, al_user_id = Some 1, al_action = ''created'',
      al_old_value = None, al_new_value = Some ex_task, al_created_at = 1\<rparr>"

definition ex_store :: store where
  "ex_store =
     \<lparr>users = ex_users, profiles = ex_profiles, user_roles = ex_roles,
      tasks = [ex_task], activity_logs = [ex_log]\<rparr>"

text \<open>The same database, except that the manager has assigned the task to themselves.\<close>

definition ex_own_task :: task where
  "ex_own_task = ex_task\<lparr>t_assigned_to := Some 1\<rparr>"

definition ex_own_store :: store where
  "ex_own_store =
     ex_store\<lparr>tasks := [ex_own_task],
              activity_logs := [ex_log\<lparr>al_new_value := Some ex_own_task\<rparr>]\<rparr>"

text \<open>An insert that leaves the priority out.\<close>

definition ex_insert :: task_insert where
  "ex_insert =
     \<lparr>i_id = None, i_title = ''Review'', i_description = None, i_status = None,
      i_priority = None, i_created_by = 1, i_assigned_to = None, i_due_date = None,
      i_created_at = None, i_updated_at = None\<rparr>"

text \<open>A task as the form submits it to \<open>createTask\<close>.\<close>

definition ex_new :: new_task where
  "ex_new =
     \<lparr>n_title = ''Review'', n_description = Some ''Read the draft'', n_status = todo,
      n_priority = 3, n_assigned_to = Some 3, n_due_date = None\<rparr>"

text \<open>Three signups of a fourth identity, differing in the role metadata.\<close>

definition ex_manager_signup :: auth_user where
  "ex_manager_signup =
     \<lparr>au_id = 4, au_email = ''w@example.org'',
      raw_user_meta_data = [(''full_name'', ''W''), (''role'', ''manager'')]\<rparr>"

definition ex_plain_signup :: auth_user where
  "ex_plain_signup =
     \<lparr>au_id = 4, au_email = ''w@example.org'', raw_user_meta_data = [(''full_name'', ''W'')]\<rparr>"

definition ex_admin_signup :: auth_user where
  "ex_admin_signup =
     \<lparr>au_id = 4, au_email = ''w@example.org'',
      raw_user_meta_data = [(''full_name'', ''W''), (''role'', ''admin'')]\<rparr>"

text \<open>A task with a priority that a 32-bit integer cannot hold.\<close>

definition ex_big_priority :: new_task where
  "ex_big_priority = ex_new\<lparr>n_priority := 2147483648\<rparr>"

text \<open>
  The example database with task 10 and no activity log row for it, as after an insert
  of the task that did not go through \<open>createTask\<close>.
\<close>

definition ex_unlogged_store :: store where
  "ex_unlogged_store = ex_store\<lparr>activity_logs := []\<rparr>"

section \<open>The policies, evaluated\<close>

lemma tasks_select_iff:
  "rls_using tasks_policies SELECT s uid t \<longleftrightarrow>
     t_assigned_to t = Some uid \<or> t_created_by t = uid"
  by (simp add: rls_using_def tasks_policies_def using_expr_def
      users_can_view_assigned_tasks_or_own_tasks_def managers_can_create_tasks_def
      managers_can_update_any_task_they_created_def
      users_can_update_status_of_assigned_tasks_def
      managers_can_delete_tasks_they_created_def)

lemma tasks_insert_iff:
  "rls_check tasks_policies INSERT s uid t \<longleftrightarrow> has_role s uid manager \<and> t_created_by t = uid"
  by (simp add: rls_check_def tasks_policies_def check_expr_def using_expr_def
      users_can_view_assigned_tasks_or_own_tasks_def managers_can_create_tasks_def
      managers_can_update_any_task_they_created_def
      users_can_update_status_of_assigned_tasks_def
      managers_can_delete_tasks_they_created_def)

lemma tasks_update_using_iff:
  "rls_using tasks_policies UPDATE s uid t \<longleftrightarrow>
     (has_role s uid manager \<and> t_created_by t = uid) \<or> t_assigned_to t = Some uid"
  by (simp add: rls_using_def tasks_policies_def using_expr_def
      users_can_view_assigned_tasks_or_own_tasks_def managers_can_create_tasks_def
      managers_can_update_any_task_they_created_def
      users_can_update_status_of_assigned_tasks_def
      managers_can_delete_tasks_they_created_def)

lemma tasks_update_check_iff:
  "rls_check tasks_policies UPDATE s uid t \<longleftrightarrow>
     (has_role s uid manager \<and> t_created_by t = uid) \<or> t_assigned_to t = Some uid"
  by (simp add: rls_check_def tasks_policies_def check_expr_def using_expr_def
      users_can_view_assigned_tasks_or_own_tasks_def managers_can_create_tasks_def
      managers_can_update_any_task_they_created_def
      users_can_update_status_of_assigned_tasks_def
      managers_can_delete_tasks_they_created_def)

lemma tasks_delete_iff:
  "rls_using tasks_policies DELETE s uid t \<longleftrightarrow> has_role s uid manager \<and> t_created_by t = uid"
  by (simp add: rls_using_def tasks_policies_def using_expr_def
      users_can_view_assigned_tasks_or_own_tasks_def managers_can_create_tasks_def
      managers_can_update_any_task_they_created_def
      users_can_update_status_of_assigned_tasks_def
      managers_can_delete_tasks_they_created_def)

lemma user_roles_insert_iff:
  "rls_check user_roles_policies INSERT s uid r \<longleftrightarrow> ur_user_id r = uid"
  by (simp add: rls_check_def user_roles_policies_def check_expr_def using_expr_def
      users_can_view_own_role_def users_can_insert_own_role_def)

lemma activity_logs_insert_iff:
  "rls_check activity_logs_policies INSERT s uid l \<longleftrightarrow> al_user_id l = Some uid"
  by (simp add: rls_check_def activity_logs_policies_def check_expr_def using_expr_def
      users_can_view_activity_for_their_tasks_def
      authenticated_users_can_create_activity_logs_def)

text \<open>
  Whoever may update a row, or may store it by an update, may also read it: the SELECT
  policy adds nothing to a statement on a row that the UPDATE or DELETE policies admit.
\<close>

lemma target_update_iff:
  "target s uid UPDATE tid t \<longleftrightarrow>
     t_id t = tid \<and> ((has_role s uid manager \<and> t_created_by t = uid) \<or> t_assigned_to t = Some uid)"
  by (auto simp: target_def tasks_update_using_iff tasks_select_iff)

lemma target_delete_iff:
  "target s uid DELETE tid t \<longleftrightarrow> t_id t = tid \<and> has_role s uid manager \<and> t_created_by t = uid"
  by (auto simp: target_def tasks_delete_iff tasks_select_iff)

lemma has_role_ex_store [simp]:
  "has_role ex_store 1 manager" "\<not> has_role ex_store 2 manager" "\<not> has_role ex_store 3 manager"
  by (simp_all add: has_role_def ex_store_def ex_roles_def)

lemma has_role_tasks_update [simp]: "has_role (s\<lparr>tasks := ts\<rparr>) uid rl = has_role s uid rl"
  by (simp add: has_role_def)

lemma has_role_logs_update [simp]: "has_role (s\<lparr>activity_logs := ls\<rparr>) uid rl = has_role s uid rl"
  by (simp add: has_role_def)

section \<open>Reading tasks\<close>

lemma select_tasks_filter:
  "select_tasks s uid =
     filter (\<lambda>t. uid = t_created_by t \<or> t_assigned_to t = Some uid) (tasks s)"
  unfolding select_tasks_def by (rule filter_cong) (auto simp: tasks_select_iff)

text \<open>
  Claim C2. A read of the tasks by identity \<open>uid\<close> returns exactly the stored rows
  whose \<^verbatim>\<open>created_by\<close> or \<^verbatim>\<open>assigned_to\<close> is \<open>uid\<close>. Every other row is left
  out without a trace: the read returns the same as it does on the database from which
  all those other rows have been removed, so a task that exists and may not be read
  cannot be told from one that does not exist.
\<close>

theorem fetchTasks_rows:
  "set (fetchTasks s (Some uid) cache) =
     {t \<in> set (tasks s). uid = t_created_by t \<or> t_assigned_to t = Some uid} \<and>
   fetchTasks
     (s\<lparr>tasks := filter (\<lambda>t. uid = t_created_by t \<or> t_assigned_to t = Some uid) (tasks s)\<rparr>)
     (Some uid) cache = fetchTasks s (Some uid) cache"
  by (simp add: fetchTasks_def select_tasks_filter)

section \<open>Creating tasks\<close>

text \<open>
  Claim C4, as amended. When the signed-in identity does not hold the role manager,
  \<open>createTask\<close> fails and the database is unchanged: no task row and no activity log
  row has been stored. The error is \<open>Unauthorized\<close> when the priority given fits the
  32-bit integer column; a priority outside that range is refused when the statement
  converts it, before the policy is evaluated, with the error for a number out of range.
\<close>

theorem createTask_non_manager:
  "\<not> has_role s uid manager \<Longrightarrow>
     createTask s (Some uid) task gen now gen' now' =
       (Inl (if int4 (n_priority task) then Unauthorized
             else NumericValueOutOfRange ''priority''), s)"
  by (simp add: createTask_def insert_task_def with_created_by_def new_task_row_def
      tasks_insert_iff Let_def)

text \<open>User 2, who is no manager, calls \<open>createTask\<close> with priority 3 and with priority 2147483648.\<close>

theorem createTask_non_manager_witness:
  "\<not> has_role ex_store 2 manager \<and> int4 (n_priority ex_new) \<and>
   createTask ex_store (Some 2) ex_new 11 5 201 6 = (Inl Unauthorized, ex_store) \<and>
   \<not> int4 (n_priority ex_big_priority) \<and>
   createTask ex_store (Some 2) ex_big_priority 11 5 201 6 =
     (Inl (NumericValueOutOfRange ''priority''), ex_store)"
  using createTask_non_manager [of ex_store 2 ex_new 11 5 201 6]
    createTask_non_manager [of ex_store 2 ex_big_priority 11 5 201 6]
  by (simp add: int4_def ex_new_def ex_big_priority_def)

text \<open>
  Claim C4 as stated fails: user 2 is no manager, and \<open>createTask\<close> with priority
  2147483648 fails with the error for a number out of range, not with \<open>Unauthorized\<close>.
\<close>

theorem createTask_out_of_range:
  "\<not> has_role ex_store 2 manager \<and>
   createTask ex_store (Some 2) ex_big_priority 11 5 201 6 =
     (Inl (NumericValueOutOfRange ''priority''), ex_store)"
  by (simp add: createTask_def insert_task_def with_created_by_def int4_def ex_big_priority_def
      ex_new_def Let_def)

section \<open>Updating tasks\<close>

lemma target_filter:
  "filter (target s uid UPDATE tid) (tasks s) =
     filter (spec_update_predicate s uid) (filter (\<lambda>x. t_id x = tid) (tasks s))"
  unfolding filter_filter
  by (rule filter_cong) (auto simp: target_update_iff spec_update_predicate_def)

lemma others_filter:
  assumes "filter (\<lambda>x. t_id x = tid) (tasks s) = [t]" "spec_update_predicate s uid t"
  shows "filter (\<lambda>x. \<not> target s uid UPDATE tid x) (tasks s) = filter (\<lambda>x. t_id x \<noteq> tid) (tasks s)"
proof (rule filter_cong [OF refl])
  fix x assume x: "x \<in> set (tasks s)"
  show "(\<not> target s uid UPDATE tid x) = (t_id x \<noteq> tid)"
  proof (cases "t_id x = tid")
    case True
    with x have "x \<in> set (filter (\<lambda>x. t_id x = tid) (tasks s))" by simp
    with assms(1) have "x = t" by simp
    with True assms(2) show ?thesis
      by (auto simp: target_update_iff spec_update_predicate_def)
  next
    case False
    then show ?thesis by (simp add: target_update_iff)
  qed
qed

lemma filter_single: "filter P xs = [x] \<Longrightarrow> x \<in> set xs \<and> P x"
proof -
  assume a: "filter P xs = [x]"
  have "x \<in> set (filter P xs)" by (simp add: a)
  then show ?thesis by simp
qed

text \<open>When the statement has one target row, that row is the one replaced.\<close>

lemma replace_target:
  assumes "filter P xs = [t]"
  shows "map (\<lambda>x. if P x then r else x) xs = map (\<lambda>x. if x = t then r else x) xs"
proof (rule map_cong [OF refl])
  fix x assume "x \<in> set xs"
  show "(if P x then r else x) = (if x = t then r else x)"
  proof (cases "P x")
    case True
    with \<open>x \<in> set xs\<close> have "x \<in> set (filter P xs)" by simp
    with assms have "x = t" by simp
    with True show ?thesis by simp
  next
    case False
    with filter_single [OF assms] have "x \<noteq> t" by auto
    with False show ?thesis by simp
  qed
qed

lemma stamp_simps [simp]:
  "spec_update_predicate s uid (update_updated_at_column now t) = spec_update_predicate s uid t"
  "priority_check (update_updated_at_column now t) = priority_check t"
  "task_pk_check others (update_updated_at_column now t) = task_pk_check others t"
  "task_fk_check s old (update_updated_at_column now t) = task_fk_check s old t"
  "t_id (update_updated_at_column now t) = t_id t"
  "t_created_by (update_updated_at_column now t) = t_created_by t"
  "t_assigned_to (update_updated_at_column now t) = t_assigned_to t"
  "t_priority (update_updated_at_column now t) = t_priority t"
  by (simp_all add: spec_update_predicate_def update_updated_at_column_def priority_check_def
      task_pk_check_def task_fk_check_def split: option.splits)

lemma new_row_check:
  "rls_check tasks_policies UPDATE s uid r \<and> rls_using tasks_policies SELECT s uid r \<longleftrightarrow>
     spec_update_predicate s uid r"
  by (auto simp: tasks_update_check_iff tasks_select_iff spec_update_predicate_def)

lemma fits_update:
  "(\<forall>v. u_priority u = Some v \<longrightarrow> int4 v) \<Longrightarrow>
     (case u_priority u of Some v \<Rightarrow> \<not> int4 v | None \<Rightarrow> False) = False"
  by (cases "u_priority u") simp_all

lemma keys_violation:
  "task_pk_check others r = Some e \<Longrightarrow> \<exists>c. e = ConstraintViolation c"
  "task_fk_check s old r = Some e \<Longrightarrow> \<exists>c. e = ConstraintViolation c"
  by (auto simp: task_pk_check_def task_fk_check_def split: if_splits)

text \<open>What an update does to a task that the caller may update, and may keep as updated.\<close>

lemma update_task_visible:
  assumes one: "filter (\<lambda>x. t_id x = tid) (tasks s) = [t]"
    and fits: "\<forall>v. u_priority u = Some v \<longrightarrow> int4 v"
    and old: "spec_update_predicate s uid t"
    and new: "spec_update_predicate s uid (apply_updates u t)"
  shows "if priority_check (apply_updates u t) \<and>
            \<not> (t_id (apply_updates u t) \<noteq> tid \<and> referenced_by_log s tid) \<and>
            task_keys_check s (filter (\<lambda>x. t_id x \<noteq> tid) (tasks s)) (Some t)
              (apply_updates u t) = None
         then update_task s uid tid u now =
                Inr (update_updated_at_column now (apply_updates u t),
                     s\<lparr>tasks := map (\<lambda>x. if x = t
                                           then update_updated_at_column now (apply_updates u t)
                                           else x) (tasks s)\<rparr>)
         else \<exists>c. update_task s uid tid u now = Inl (ConstraintViolation c)"
proof -
  let ?r = "apply_updates u t"
  let ?others = "filter (\<lambda>x. t_id x \<noteq> tid) (tasks s)"
  from one old have tg: "filter (target s uid UPDATE tid) (tasks s) = [t]"
    by (simp add: target_filter)
  from one have "t \<in> set (filter (\<lambda>x. t_id x = tid) (tasks s))" by simp
  then have id: "t_id t = tid" by simp
  note oth = others_filter [OF one old]
  note rep = replace_target [OF tg]
  have unf: "update_task s uid tid u now =
      (if \<not> priority_check ?r then Inl (ConstraintViolation ''priority'')
       else (case task_pk_check ?others ?r of
               Some e \<Rightarrow> Inl e
             | None \<Rightarrow>
                 if t_id ?r \<noteq> tid \<and> referenced_by_log s tid
                   then Inl (ConstraintViolation ''task_id'')
                 else (case task_fk_check s (Some t) ?r of
                         Some e \<Rightarrow> Inl e
                       | None \<Rightarrow>
                           Inr (update_updated_at_column now ?r,
                                s\<lparr>tasks := map (\<lambda>x. if x = t
                                                     then update_updated_at_column now ?r
                                                     else x) (tasks s)\<rparr>))))"
    using new by (simp add: update_task_def fits_update [OF fits] tg oth rep new_row_check id Let_def
        split: option.splits)
  show ?thesis
  proof (cases "priority_check ?r")
    case False
    then show ?thesis by (simp add: unf)
  next
    case pc: True
    show ?thesis
    proof (cases "task_pk_check ?others ?r")
      case (Some e)
      with keys_violation(1) [OF Some] pc show ?thesis
        by (auto simp: unf task_keys_check_def)
    next
      case pk: None
      show ?thesis
      proof (cases "t_id ?r \<noteq> tid \<and> referenced_by_log s tid")
        case True
        with pc pk show ?thesis by (simp add: unf)
      next
        case nr: False
        show ?thesis
        proof (cases "task_fk_check s (Some t) ?r")
          case (Some e)
          with keys_violation(2) [OF Some] pc pk nr show ?thesis
            by (auto simp: unf task_keys_check_def)
        next
          case None
          with pc pk nr show ?thesis by (simp add: unf task_keys_check_def)
        qed
      qed
    qed
  qed
qed

text \<open>
  Claim C1, as amended. Let \<open>t\<close> be the stored task with id \<open>tid\<close>, and let the
  priority of the payload, if it has one, fit the 32-bit integer column. An update of
  \<open>t\<close> by \<open>uid\<close> acts on the row only if the predicate of the specification holds
  of the stored row (otherwise the row is invisible and \<^verbatim>\<open>.single()\<close> fails as for a
  task that does not exist), and the update is refused as unauthorized unless the
  predicate holds of the modified row as well: both update policies are declared with
  \<^verbatim>\<open>USING\<close> only, so their expressions are also the check of the new row. When the
  predicate holds before and after, only the constraints of the table decide: when they
  hold, the stored row is replaced by the modified row, whatever columns the payload
  sets, and otherwise the update fails with a constraint violation. No policy names a
  column, so an assignee may change any column, not only the status, as long as the
  modified row still satisfies the predicate. In particular an identity that does not
  hold the role manager cannot change \<^verbatim>\<open>assigned_to\<close>: each of its updates that would
  change the column fails.
\<close>

theorem update_task_permitted:
  assumes one: "filter (\<lambda>x. t_id x = tid) (tasks s) = [t]"
    and fits: "\<forall>v. u_priority u = Some v \<longrightarrow> int4 v"
  shows "(\<not> spec_update_predicate s uid t \<longrightarrow> update_task s uid tid u now = Inl NotSingleRow) \<and>
         (spec_update_predicate s uid t \<and> \<not> spec_update_predicate s uid (apply_updates u t) \<longrightarrow>
            update_task s uid tid u now = Inl Unauthorized) \<and>
         (spec_update_predicate s uid t \<and> spec_update_predicate s uid (apply_updates u t) \<longrightarrow>
            (if priority_check (apply_updates u t) \<and>
                \<not> (t_id (apply_updates u t) \<noteq> tid \<and> referenced_by_log s tid) \<and>
                task_keys_check s (filter (\<lambda>x. t_id x \<noteq> tid) (tasks s)) (Some t)
                  (apply_updates u t) = None
             then update_task s uid tid u now =
                    Inr (update_updated_at_column now (apply_updates u t),
                         s\<lparr>tasks := map (\<lambda>x. if x = t
                                               then update_updated_at_column now (apply_updates u t)
                                               else x) (tasks s)\<rparr>)
             else \<exists>c. update_task s uid tid u now = Inl (ConstraintViolation c))) \<and>
         (\<not> has_role s uid manager \<and> t_assigned_to (apply_updates u t) \<noteq> t_assigned_to t \<longrightarrow>
            isl (update_task s uid tid u now))"
proof (intro conjI impI)
  assume n: "\<not> spec_update_predicate s uid t"
  with one have "filter (target s uid UPDATE tid) (tasks s) = []"
    by (simp add: target_filter)
  then show "update_task s uid tid u now = Inl NotSingleRow"
    by (simp add: update_task_def fits_update [OF fits])
next
  assume a: "spec_update_predicate s uid t \<and> \<not> spec_update_predicate s uid (apply_updates u t)"
  with one have tg: "filter (target s uid UPDATE tid) (tasks s) = [t]"
    by (simp add: target_filter)
  with a show "update_task s uid tid u now = Inl Unauthorized"
    by (simp add: update_task_def fits_update [OF fits] new_row_check Let_def)
next
  assume a: "spec_update_predicate s uid t \<and> spec_update_predicate s uid (apply_updates u t)"
  then show "if priority_check (apply_updates u t) \<and>
                \<not> (t_id (apply_updates u t) \<noteq> tid \<and> referenced_by_log s tid) \<and>
                task_keys_check s (filter (\<lambda>x. t_id x \<noteq> tid) (tasks s)) (Some t)
                  (apply_updates u t) = None
             then update_task s uid tid u now =
                    Inr (update_updated_at_column now (apply_updates u t),
                         s\<lparr>tasks := map (\<lambda>x. if x = t
                                               then update_updated_at_column now (apply_updates u t)
                                               else x) (tasks s)\<rparr>)
             else \<exists>c. update_task s uid tid u now = Inl (ConstraintViolation c)"
    by (intro update_task_visible [OF one fits]) simp_all
next
  assume a: "\<not> has_role s uid manager \<and> t_assigned_to (apply_updates u t) \<noteq> t_assigned_to t"
  show "isl (update_task s uid tid u now)"
  proof (cases "spec_update_predicate s uid t")
    case False
    with one have "filter (target s uid UPDATE tid) (tasks s) = []"
      by (simp add: target_filter)
    then show ?thesis by (simp add: update_task_def fits_update [OF fits])
  next
    case True
    with one have tg: "filter (target s uid UPDATE tid) (tasks s) = [t]"
      by (simp add: target_filter)
    from True a have "\<not> spec_update_predicate s uid (apply_updates u t)"
      by (auto simp: spec_update_predicate_def)
    with tg show ?thesis
      by (simp add: update_task_def fits_update [OF fits] new_row_check Let_def)
  qed
qed

lemma ex_one: "filter (\<lambda>x. t_id x = 10) (tasks ex_store) = [ex_task]"
  by (simp add: ex_store_def ex_task_def)

lemma ex_pred [simp]:
  "spec_update_predicate ex_store uid t \<longleftrightarrow> (uid = 1 \<and> t_created_by t = 1) \<or> t_assigned_to t = Some uid"
  by (auto simp: spec_update_predicate_def has_role_def ex_store_def ex_roles_def)

lemma no_updates_fits:
  "\<forall>v. u_priority (no_updates\<lparr>u_title := a\<rparr>) = Some v \<longrightarrow> int4 v"
  "\<forall>v. u_priority (no_updates\<lparr>u_assigned_to := b\<rparr>) = Some v \<longrightarrow> int4 v"
  "\<forall>v. u_priority (no_updates\<lparr>u_priority := Some 9\<rparr>) = Some v \<longrightarrow> int4 v"
  by (simp_all add: no_updates_def int4_def)

text \<open>
  On task 10 of the example: user 2, its assignee, changes the title; user 2 tries to set
  the priority 9; user 2 tries to hand the task to user 3; user 3, who is neither creator
  nor assignee, tries to change the title.
\<close>

theorem update_task_permitted_witness:
  "filter (\<lambda>x. t_id x = 10) (tasks ex_store) = [ex_task] \<and>
   spec_update_predicate ex_store 2 ex_task \<and>
   update_task ex_store 2 10 (no_updates\<lparr>u_title := Some ''Plan''\<rparr>) 5 =
     Inr (ex_task\<lparr>t_title := ''Plan'', t_updated_at := 5\<rparr>,
          ex_store\<lparr>tasks := [ex_task\<lparr>t_title := ''Plan'', t_updated_at := 5\<rparr>]\<rparr>) \<and>
   \<not> priority_check (apply_updates (no_updates\<lparr>u_priority := Some 9\<rparr>) ex_task) \<and>
   (\<exists>c. update_task ex_store 2 10 (no_updates\<lparr>u_priority := Some 9\<rparr>) 5 =
          Inl (ConstraintViolation c)) \<and>
   \<not> has_role ex_store 2 manager \<and>
   update_task ex_store 2 10 (no_updates\<lparr>u_assigned_to := Some (Some 3)\<rparr>) 5 = Inl Unauthorized \<and>
   isl (update_task ex_store 2 10 (no_updates\<lparr>u_assigned_to := Some (Some 3)\<rparr>) 5) \<and>
   \<not> spec_update_predicate ex_store 3 ex_task \<and>
   update_task ex_store 3 10 (no_updates\<lparr>u_title := Some ''Plan''\<rparr>) 5 = Inl NotSingleRow"
proof -
  have r: "update_updated_at_column 5 (apply_updates (no_updates\<lparr>u_title := Some ''Plan''\<rparr>) ex_task) =
      ex_task\<lparr>t_title := ''Plan'', t_updated_at := 5\<rparr>"
    by (simp add: update_updated_at_column_def apply_updates_def no_updates_def ex_task_def)
  have c: "priority_check (apply_updates (no_updates\<lparr>u_title := Some ''Plan''\<rparr>) ex_task)"
    "t_id (apply_updates (no_updates\<lparr>u_title := Some ''Plan''\<rparr>) ex_task) = 10"
    "task_keys_check ex_store (filter (\<lambda>x. t_id x \<noteq> 10) (tasks ex_store)) (Some ex_task)
       (apply_updates (no_updates\<lparr>u_title := Some ''Plan''\<rparr>) ex_task) = None"
    "spec_update_predicate ex_store 2 (apply_updates (no_updates\<lparr>u_title := Some ''Plan''\<rparr>) ex_task)"
    "\<not> spec_update_predicate ex_store 2
         (apply_updates (no_updates\<lparr>u_assigned_to := Some (Some 3)\<rparr>) ex_task)"
    "t_assigned_to (apply_updates (no_updates\<lparr>u_assigned_to := Some (Some 3)\<rparr>) ex_task) \<noteq>
       t_assigned_to ex_task"
    "spec_update_predicate ex_store 2 ex_task" "\<not> spec_update_predicate ex_store 3 ex_task"
    "tasks ex_store = [ex_task]"
    "\<not> priority_check (apply_updates (no_updates\<lparr>u_priority := Some 9\<rparr>) ex_task)"
    "spec_update_predicate ex_store 2 (apply_updates (no_updates\<lparr>u_priority := Some 9\<rparr>) ex_task)"
    by (simp_all add: apply_updates_def no_updates_def ex_task_def priority_check_def
        task_keys_check_def task_pk_check_def task_fk_check_def ex_store_def
        spec_update_predicate_def has_role_def ex_roles_def)
  from update_task_permitted [OF ex_one no_updates_fits(1), of 2 "Some ''Plan''" 5] c r
  have 1: "update_task ex_store 2 10 (no_updates\<lparr>u_title := Some ''Plan''\<rparr>) 5 =
     Inr (ex_task\<lparr>t_title := ''Plan'', t_updated_at := 5\<rparr>,
          ex_store\<lparr>tasks := [ex_task\<lparr>t_title := ''Plan'', t_updated_at := 5\<rparr>]\<rparr>)"
    by simp
  from update_task_permitted [OF ex_one no_updates_fits(2), of 2 "Some (Some 3)" 5] c
  have 2: "update_task ex_store 2 10 (no_updates\<lparr>u_assigned_to := Some (Some 3)\<rparr>) 5 = Inl Unauthorized"
    "isl (update_task ex_store 2 10 (no_updates\<lparr>u_assigned_to := Some (Some 3)\<rparr>) 5)"
    by simp_all
  from update_task_permitted [OF ex_one no_updates_fits(1), of 3 "Some ''Plan''" 5] c
  have 3: "update_task ex_store 3 10 (no_updates\<lparr>u_title := Some ''Plan''\<rparr>) 5 = Inl NotSingleRow"
    by simp
  have 4: "\<not> has_role ex_store 2 manager" by simp
  from update_task_permitted [OF ex_one no_updates_fits(3), of 2 5] c
  have 5: "\<exists>c. update_task ex_store 2 10 (no_updates\<lparr>u_priority := Some 9\<rparr>) 5 =
          Inl (ConstraintViolation c)"
    by simp
  from ex_one c(7,8,10) 1 2 3 4 5 show ?thesis by simp
qed

text \<open>
  Claim C1 as stated fails: user 2 is the assignee of task 10, so the predicate holds,
  but the update by which user 2 hands the task to user 3 is refused.
\<close>

theorem assignee_reassign_refused:
  "tasks ex_store = [ex_task] \<and> spec_update_predicate ex_store 2 ex_task \<and>
   update_task ex_store 2 10 (no_updates\<lparr>u_assigned_to := Some (Some 3)\<rparr>) 5 = Inl Unauthorized"
  by (simp add: update_task_def target_update_iff new_row_check ex_store_def ex_task_def
      apply_updates_def no_updates_def update_updated_at_column_def spec_update_predicate_def
      has_role_def ex_roles_def Let_def)

lemma insert_task_Inr:
  assumes "insert_task s uid p gen now = Inr (d, s1)"
  shows "d = new_task_row p gen now" and "s1 = s\<lparr>tasks := tasks s @ [d]\<rparr>"
    and "has_role s uid manager" and "t_created_by d = uid"
    and "uid \<in> set (map au_id (users s))" and "priority_check d"
  using assms
  by (auto simp: insert_task_def Let_def tasks_insert_iff task_keys_check_def task_pk_check_def
      task_fk_check_def split: if_splits option.splits)

lemma update_task_Inr:
  assumes "update_task s uid tid u now = Inr (d, s1)"
  shows "\<exists>t. filter (target s uid UPDATE tid) (tasks s) = [t] \<and>
             d = update_updated_at_column now (apply_updates u t) \<and>
             s1 = s\<lparr>tasks := map (\<lambda>x. if x = t then d else x) (tasks s)\<rparr> \<and>
             priority_check d"
proof -
  from assms obtain t where tg: "filter (target s uid UPDATE tid) (tasks s) = [t]"
    by (auto simp: update_task_def split: if_splits list.splits)
  from assms tg have "d = update_updated_at_column now (apply_updates u t) \<and>
      s1 = s\<lparr>tasks := map (\<lambda>x. if target s uid UPDATE tid x then d else x) (tasks s)\<rparr> \<and>
      priority_check d"
    by (auto simp: update_task_def Let_def split: if_splits option.splits)
  with tg replace_target [OF tg, of d] show ?thesis by auto
qed

text \<open>
  Claim C5, as amended. No policy, constraint or trigger protects \<^verbatim>\<open>created_by\<close>.
  An accepted update replaces the one stored row it acts on by the row it returns and
  changes nothing else in the database; in that row \<^verbatim>\<open>created_by\<close> is the value the
  payload gave it, and the value the stored row had before when the payload does not set
  it.
\<close>

theorem update_task_created_by:
  assumes "update_task s uid tid u now = Inr (t', s')"
  shows "\<exists>t. filter (target s uid UPDATE tid) (tasks s) = [t] \<and>
             t_created_by t' = (case u_created_by u of None \<Rightarrow> t_created_by t | Some c \<Rightarrow> c) \<and>
             s' = s\<lparr>tasks := map (\<lambda>x. if x = t then t' else x) (tasks s)\<rparr>"
  using update_task_Inr [OF assms] by (auto simp: apply_updates_def)

lemmas ex_defs = ex_store_def ex_task_def ex_users_def ex_roles_def ex_log_def

lemmas update_eval = update_task_def target_update_iff new_row_check apply_updates_def
  no_updates_def update_updated_at_column_def spec_update_predicate_def has_role_def
  priority_check_def task_pk_check_def task_fk_check_def referenced_by_log_def int4_def Let_def

text \<open>An accepted update that does not set \<^verbatim>\<open>created_by\<close>: the assignee completes task 10.\<close>

theorem update_task_created_by_witness:
  "update_task ex_store 2 10 (no_updates\<lparr>u_status := Some completed\<rparr>) 5 =
     Inr (ex_task\<lparr>t_status := completed, t_updated_at := 5\<rparr>,
          ex_store\<lparr>tasks := [ex_task\<lparr>t_status := completed, t_updated_at := 5\<rparr>]\<rparr>) \<and>
   (\<exists>t. filter (target ex_store 2 UPDATE 10) (tasks ex_store) = [t] \<and>
        t_created_by (ex_task\<lparr>t_status := completed, t_updated_at := 5\<rparr>) = t_created_by t \<and>
        ex_store\<lparr>tasks := [ex_task\<lparr>t_status := completed, t_updated_at := 5\<rparr>]\<rparr> =
          ex_store\<lparr>tasks := map (\<lambda>x. if x = t
                                       then ex_task\<lparr>t_status := completed, t_updated_at := 5\<rparr>
                                       else x) (tasks ex_store)\<rparr>)"
proof -
  have 1: "update_task ex_store 2 10 (no_updates\<lparr>u_status := Some completed\<rparr>) 5 =
     Inr (ex_task\<lparr>t_status := completed, t_updated_at := 5\<rparr>,
          ex_store\<lparr>tasks := [ex_task\<lparr>t_status := completed, t_updated_at := 5\<rparr>]\<rparr>)"
    by (simp add: update_eval ex_defs)
  from update_task_created_by [OF 1] show ?thesis
    using 1 by (simp add: no_updates_def)
qed

text \<open>
  Claim C5 as stated fails: user 2, the assignee of task 10, makes themselves its
  creator; the update is accepted and the stored row has the new creator.
\<close>

theorem assignee_changes_created_by:
  "tasks ex_store = [ex_task] \<and> t_created_by ex_task = 1 \<and>
   update_task ex_store 2 10 (no_updates\<lparr>u_created_by := Some 2\<rparr>) 5 =
     Inr (ex_task\<lparr>t_created_by := 2, t_updated_at := 5\<rparr>,
          ex_store\<lparr>tasks := [ex_task\<lparr>t_created_by := 2, t_updated_at := 5\<rparr>]\<rparr>)"
  by (simp add: update_eval ex_defs)

lemmas insert_eval = insert_task_def new_task_row_def with_created_by_def tasks_insert_iff
  tasks_select_iff priority_check_def task_keys_check_def task_pk_check_def task_fk_check_def
  has_role_def int4_def Let_def

lemmas log_eval = insert_activity_log_def activity_logs_insert_iff Let_def

section \<open>Priority\<close>

text \<open>
  Claim C7, as amended. The priority of a stored task is NULL or an integer from 1 to 5,
  after an insert and after an update. A task inserted without a priority gets the
  column default, which is 1. \<open>createTask\<close> always sends a priority, and 3 is the
  value the task form starts with.
\<close>

theorem priority_range_and_default:
  "(insert_task s uid p gen now = Inr (t, s') \<longrightarrow>
      (\<forall>v. t_priority t = Some v \<longrightarrow> 1 \<le> v \<and> v \<le> 5) \<and>
      (i_priority p = None \<longrightarrow> t_priority t = Some 1)) \<and>
   (update_task s uid tid u now = Inr (t, s') \<longrightarrow>
      (\<forall>v. t_priority t = Some v \<longrightarrow> 1 \<le> v \<and> v \<le> 5)) \<and>
   i_priority (with_created_by task uid) = Some (Some (n_priority task)) \<and>
   f_priority initial_form_data = 3"
proof (intro conjI impI)
  assume a: "insert_task s uid p gen now = Inr (t, s')"
  from insert_task_Inr(6) [OF a] show "\<forall>v. t_priority t = Some v \<longrightarrow> 1 \<le> v \<and> v \<le> 5"
    by (auto simp: priority_check_def)
  assume "i_priority p = None"
  with insert_task_Inr(1) [OF a] show "t_priority t = Some 1"
    by (simp add: new_task_row_def)
next
  assume a: "update_task s uid tid u now = Inr (t, s')"
  from update_task_Inr [OF a] show "\<forall>v. t_priority t = Some v \<longrightarrow> 1 \<le> v \<and> v \<le> 5"
    by (auto simp: priority_check_def)
qed (simp_all add: with_created_by_def initial_form_data_def)

text \<open>
  Claim C7 as stated fails: the manager inserts a task without a priority, and the stored
  row has priority 1, not 3.
\<close>

theorem insert_without_priority:
  "i_priority ex_insert = None \<and>
   insert_task ex_store 1 ex_insert 11 5 =
     Inr (\<lparr>t_id = 11, t_title = ''Review'', t_description = None, t_status = todo,
           t_priority = Some 1, t_created_by = 1, t_assigned_to = None, t_due_date = None,
           t_created_at = 5, t_updated_at = 5\<rparr>,
          ex_store\<lparr>tasks :=
            [ex_task,
             \<lparr>t_id = 11, t_title = ''Review'', t_description = None, t_status = todo,
              t_priority = Some 1, t_created_by = 1, t_assigned_to = None, t_due_date = None,
              t_created_at = 5, t_updated_at = 5\<rparr>]\<rparr>)"
  by (simp add: insert_eval ex_defs ex_insert_def)

text \<open>An insert without priority and an update that sets priority 5, both accepted.\<close>

theorem priority_range_and_default_witness:
  "insert_task ex_store 1 ex_insert 11 5 =
     Inr (new_task_row ex_insert 11 5, ex_store\<lparr>tasks := [ex_task, new_task_row ex_insert 11 5]\<rparr>) \<and>
   i_priority ex_insert = None \<and>
   t_priority (new_task_row ex_insert 11 5) = Some 1 \<and>
   update_task ex_store 1 10 (no_updates\<lparr>u_priority := Some 5\<rparr>) 6 =
     Inr (ex_task\<lparr>t_priority := Some 5, t_updated_at := 6\<rparr>,
          ex_store\<lparr>tasks := [ex_task\<lparr>t_priority := Some 5, t_updated_at := 6\<rparr>]\<rparr>) \<and>
   1 \<le> the (t_priority (ex_task\<lparr>t_priority := Some 5, t_updated_at := 6\<rparr>)) \<and>
   the (t_priority (ex_task\<lparr>t_priority := Some 5, t_updated_at := 6\<rparr>)) \<le> 5"
proof -
  have 1: "insert_task ex_store 1 ex_insert 11 5 =
     Inr (new_task_row ex_insert 11 5, ex_store\<lparr>tasks := [ex_task, new_task_row ex_insert 11 5]\<rparr>)"
    by (simp add: insert_eval ex_defs ex_insert_def)
  have 2: "update_task ex_store 1 10 (no_updates\<lparr>u_priority := Some 5\<rparr>) 6 =
     Inr (ex_task\<lparr>t_priority := Some 5, t_updated_at := 6\<rparr>,
          ex_store\<lparr>tasks := [ex_task\<lparr>t_priority := Some 5, t_updated_at := 6\<rparr>]\<rparr>)"
    by (simp add: update_eval ex_defs)
  have 3: "i_priority ex_insert = None" by (simp add: ex_insert_def)
  from priority_range_and_default
    [of ex_store 1 ex_insert 11 5 "new_task_row ex_insert 11 5"
        "ex_store\<lparr>tasks := [ex_task, new_task_row ex_insert 11 5]\<rparr>"] 1 3
  have 4: "t_priority (new_task_row ex_insert 11 5) = Some 1" by blast
  from priority_range_and_default
    [where s = ex_store and uid = 1 and tid = 10 and u = "no_updates\<lparr>u_priority := Some 5\<rparr>"
       and now = 6 and t = "ex_task\<lparr>t_priority := Some 5, t_updated_at := 6\<rparr>"
       and s' = "ex_store\<lparr>tasks := [ex_task\<lparr>t_priority := Some 5, t_updated_at := 6\<rparr>]\<rparr>"] 2
  have 5: "\<forall>v. t_priority (ex_task\<lparr>t_priority := Some 5, t_updated_at := 6\<rparr>) = Some v \<longrightarrow> 1 \<le> v \<and> v \<le> 5"
    by blast
  from 1 2 3 4 5 show ?thesis by simp
qed

section \<open>The activity log\<close>

text \<open>
  The insert of a log row in the caller's own name is accepted exactly when the id drawn
  is unused, the task referenced exists and the caller is a row of \<^verbatim>\<open>auth.users\<close>.
\<close>

lemma insert_activity_log_own:
  "insert_activity_log s uid task_id (Some uid) action old new gen now =
     (if gen \<in> set (map al_id (activity_logs s)) then Inl (ConstraintViolation ''id'')
      else if task_id \<notin> set (map t_id (tasks s)) then Inl (ConstraintViolation ''task_id'')
      else if uid \<notin> set (map au_id (users s)) then Inl (ConstraintViolation ''user_id'')
      else Inr (s\<lparr>activity_logs := activity_logs s @
                  [\<lparr>al_id = gen, al_task_id = task_id, al_user_id = Some uid, al_action = action,
                    al_old_value = old, al_new_value = new, al_created_at = now\<rparr>]\<rparr>))"
  by (simp add: insert_activity_log_def activity_logs_insert_iff)

text \<open>
  Claim C3, as amended. The hooks write the activity log row with a second request, sent
  after the request that changed the task has been committed; the two are not one
  transaction, and the result of the second is not looked at. When the task insert or
  update fails, the hook returns its error and nothing is written. When it is accepted,
  the hook returns the new row as a success, and the database is the one after the
  mutation, with one log row more if the log insert is accepted and as it is if the log
  insert is refused: the mutation stays. For \<open>createTask\<close> the log insert is accepted
  exactly when the id drawn for the log row is unused; the row has no \<^verbatim>\<open>old_value\<close> and
  the inserted row as \<^verbatim>\<open>new_value\<close>. For \<open>updateTask\<close> it is accepted exactly when
  the id drawn is unused, a task still carries the id the hook was called with, and the
  caller is a row of \<^verbatim>\<open>auth.users\<close>; the row's \<^verbatim>\<open>new_value\<close> is the updated row and its
  \<^verbatim>\<open>old_value\<close> is the entry for that id in the hook's own list of tasks (none when the
  list has no such entry), not the row that was in the database.
\<close>

theorem activity_log_after_mutation:
  "(insert_task s uid (with_created_by task uid) gen now = Inl e \<longrightarrow>
      createTask s (Some uid) task gen now gen' now' = (Inl e, s)) \<and>
   (insert_task s uid (with_created_by task uid) gen now = Inr (d, s1) \<longrightarrow>
      createTask s (Some uid) task gen now gen' now' =
        (Inr d,
         if gen' \<notin> set (map al_id (activity_logs s))
         then s1\<lparr>activity_logs := activity_logs s @
                  [\<lparr>al_id = gen', al_task_id = t_id d, al_user_id = Some uid,
                    al_action = ''created'', al_old_value = None, al_new_value = Some d,
                    al_created_at = now'\<rparr>]\<rparr>
         else s1)) \<and>
   (update_task s uid tid u now = Inl e \<longrightarrow>
      updateTask s (Some uid) cache tid u now gen' now' = (Inl e, s)) \<and>
   (update_task s uid tid u now = Inr (d, s1) \<longrightarrow>
      updateTask s (Some uid) cache tid u now gen' now' =
        (Inr d,
         if gen' \<notin> set (map al_id (activity_logs s)) \<and> tid \<in> set (map t_id (tasks s1)) \<and>
            uid \<in> set (map au_id (users s))
         then s1\<lparr>activity_logs := activity_logs s @
                  [\<lparr>al_id = gen', al_task_id = tid, al_user_id = Some uid,
                    al_action = ''updated'', al_old_value = find (\<lambda>t. t_id t = tid) cache,
                    al_new_value = Some d, al_created_at = now'\<rparr>]\<rparr>
         else s1))"
proof (intro conjI impI)
  assume "insert_task s uid (with_created_by task uid) gen now = Inl e"
  then show "createTask s (Some uid) task gen now gen' now' = (Inl e, s)"
    by (simp add: createTask_def)
next
  assume ins: "insert_task s uid (with_created_by task uid) gen now = Inr (d, s1)"
  note facts = insert_task_Inr [OF ins]
  from facts(2,5) have "t_id d \<in> set (map t_id (tasks s1))" "uid \<in> set (map au_id (users s1))"
    "activity_logs s1 = activity_logs s"
    by simp_all
  then show "createTask s (Some uid) task gen now gen' now' =
        (Inr d,
         if gen' \<notin> set (map al_id (activity_logs s))
         then s1\<lparr>activity_logs := activity_logs s @
                  [\<lparr>al_id = gen', al_task_id = t_id d, al_user_id = Some uid,
                    al_action = ''created'', al_old_value = None, al_new_value = Some d,
                    al_created_at = now'\<rparr>]\<rparr>
         else s1)"
    by (simp add: createTask_def ins insert_activity_log_own)
next
  assume "update_task s uid tid u now = Inl e"
  then show "updateTask s (Some uid) cache tid u now gen' now' = (Inl e, s)"
    by (simp add: updateTask_def)
next
  assume upd: "update_task s uid tid u now = Inr (d, s1)"
  from update_task_Inr [OF upd] have "users s1 = users s" "activity_logs s1 = activity_logs s"
    by auto
  then show "updateTask s (Some uid) cache tid u now gen' now' =
        (Inr d,
         if gen' \<notin> set (map al_id (activity_logs s)) \<and> tid \<in> set (map t_id (tasks s1)) \<and>
            uid \<in> set (map au_id (users s))
         then s1\<lparr>activity_logs := activity_logs s @
                  [\<lparr>al_id = gen', al_task_id = tid, al_user_id = Some uid,
                    al_action = ''updated'', al_old_value = find (\<lambda>t. t_id t = tid) cache,
                    al_new_value = Some d, al_created_at = now'\<rparr>]\<rparr>
         else s1)"
    by (simp add: updateTask_def upd insert_activity_log_own Let_def)
qed

text \<open>
  Claim C3 as stated fails, twice. First, the hook of user 2 still lists task 10 under the
  title it had when it was last fetched; the update is accepted, and the \<^verbatim>\<open>old_value\<close>
  logged is that listed copy, which is not the row the database held before the update.
  Second, the manager gives task 10, which no log row references, the new id 11; the
  update is accepted and stored and the hook returns it as a success, but the log insert,
  which still names task 10, is refused, and no activity log row is written.
\<close>

theorem log_stale_and_not_atomic:
  "tasks ex_store = [ex_task] \<and>
   updateTaskStatus ex_store (Some 2) [ex_task\<lparr>t_title := ''Draft''\<rparr>] 10 completed 5 201 6 =
     (Inr (ex_task\<lparr>t_status := completed, t_updated_at := 5\<rparr>),
      ex_store\<lparr>tasks := [ex_task\<lparr>t_status := completed, t_updated_at := 5\<rparr>],
               activity_logs :=
                 [ex_log,
                  \<lparr>al_id = 201, al_task_id = 10, al_user_id = Some 2, al_action = ''updated'',
                   al_old_value = Some (ex_task\<lparr>t_title := ''Draft''\<rparr>),
                   al_new_value = Some (ex_task\<lparr>t_status := completed, t_updated_at := 5\<rparr>),
                   al_created_at = 6\<rparr>]\<rparr>) \<and>
   ex_task\<lparr>t_title := ''Draft''\<rparr> \<noteq> ex_task \<and>
   tasks ex_unlogged_store = [ex_task] \<and> activity_logs ex_unlogged_store = [] \<and>
   updateTask ex_unlogged_store (Some 1) [ex_task] 10 (no_updates\<lparr>u_id := Some 11\<rparr>) 5 201 6 =
     (Inr (ex_task\<lparr>t_id := 11, t_updated_at := 5\<rparr>),
      ex_unlogged_store\<lparr>tasks := [ex_task\<lparr>t_id := 11, t_updated_at := 5\<rparr>]\<rparr>) \<and>
   activity_logs (ex_unlogged_store\<lparr>tasks := [ex_task\<lparr>t_id := 11, t_updated_at := 5\<rparr>]\<rparr>) = [] \<and>
   insert_activity_log (ex_unlogged_store\<lparr>tasks := [ex_task\<lparr>t_id := 11, t_updated_at := 5\<rparr>]\<rparr>)
       1 10 (Some 1) ''updated'' (Some ex_task) (Some (ex_task\<lparr>t_id := 11, t_updated_at := 5\<rparr>))
       201 6 =
     Inl (ConstraintViolation ''task_id'')"
  by (simp add: updateTaskStatus_def updateTask_def update_eval log_eval ex_defs
      ex_unlogged_store_def)

text \<open>
  The manager creates a task; user 2 completes task 10; the manager renumbers the unlogged
  task 10; user 2, who is no manager, tries to create a task.
\<close>

theorem activity_log_after_mutation_witness:
  "createTask ex_store (Some 1) ex_new 11 5 201 6 =
     (Inr (new_task_row (with_created_by ex_new 1) 11 5),
      ex_store\<lparr>tasks := [ex_task, new_task_row (with_created_by ex_new 1) 11 5],
               activity_logs :=
                 [ex_log,
                  \<lparr>al_id = 201, al_task_id = 11, al_user_id = Some 1, al_action = ''created'',
                   al_old_value = None,
                   al_new_value = Some (new_task_row (with_created_by ex_new 1) 11 5),
                   al_created_at = 6\<rparr>]\<rparr>) \<and>
   updateTask ex_store (Some 2) [ex_task] 10 (no_updates\<lparr>u_status := Some completed\<rparr>) 5 201 6 =
     (Inr (ex_task\<lparr>t_status := completed, t_updated_at := 5\<rparr>),
      ex_store\<lparr>tasks := [ex_task\<lparr>t_status := completed, t_updated_at := 5\<rparr>],
               activity_logs :=
                 [ex_log,
                  \<lparr>al_id = 201, al_task_id = 10, al_user_id = Some 2, al_action = ''updated'',
                   al_old_value = Some ex_task,
                   al_new_value = Some (ex_task\<lparr>t_status := completed, t_updated_at := 5\<rparr>),
                   al_created_at = 6\<rparr>]\<rparr>) \<and>
   updateTask ex_unlogged_store (Some 1) [ex_task] 10 (no_updates\<lparr>u_id := Some 11\<rparr>) 5 201 6 =
     (Inr (ex_task\<lparr>t_id := 11, t_updated_at := 5\<rparr>),
      ex_unlogged_store\<lparr>tasks := [ex_task\<lparr>t_id := 11, t_updated_at := 5\<rparr>]\<rparr>) \<and>
   createTask ex_store (Some 2) ex_new 11 5 201 6 = (Inl Unauthorized, ex_store)"
proof -
  have i1: "insert_task ex_store 1 (with_created_by ex_new 1) 11 5 =
      Inr (new_task_row (with_created_by ex_new 1) 11 5,
           ex_store\<lparr>tasks := [ex_task, new_task_row (with_created_by ex_new 1) 11 5]\<rparr>)"
    by (simp add: insert_eval ex_defs ex_new_def)
  have u1: "update_task ex_store 2 10 (no_updates\<lparr>u_status := Some completed\<rparr>) 5 =
      Inr (ex_task\<lparr>t_status := completed, t_updated_at := 5\<rparr>,
           ex_store\<lparr>tasks := [ex_task\<lparr>t_status := completed, t_updated_at := 5\<rparr>]\<rparr>)"
    by (simp add: update_eval ex_defs)
  have u2: "update_task ex_unlogged_store 1 10 (no_updates\<lparr>u_id := Some 11\<rparr>) 5 =
      Inr (ex_task\<lparr>t_id := 11, t_updated_at := 5\<rparr>,
           ex_unlogged_store\<lparr>tasks := [ex_task\<lparr>t_id := 11, t_updated_at := 5\<rparr>]\<rparr>)"
    by (simp add: update_eval ex_defs ex_unlogged_store_def)
  have i2: "insert_task ex_store 2 (with_created_by ex_new 2) 11 5 = Inl Unauthorized"
    by (simp add: insert_eval ex_defs ex_new_def)
  have 1: "createTask ex_store (Some 1) ex_new 11 5 201 6 =
     (Inr (new_task_row (with_created_by ex_new 1) 11 5),
      ex_store\<lparr>tasks := [ex_task, new_task_row (with_created_by ex_new 1) 11 5],
               activity_logs :=
                 [ex_log,
                  \<lparr>al_id = 201, al_task_id = 11, al_user_id = Some 1, al_action = ''created'',
                   al_old_value = None,
                   al_new_value = Some (new_task_row (with_created_by ex_new 1) 11 5),
                   al_created_at = 6\<rparr>]\<rparr>)"
    using activity_log_after_mutation [THEN conjunct2, THEN conjunct1, THEN mp, OF i1, of 201 6]
    by (simp add: ex_defs ex_unlogged_store_def new_task_row_def with_created_by_def)
  have 2: "updateTask ex_store (Some 2) [ex_task] 10 (no_updates\<lparr>u_status := Some completed\<rparr>) 5 201 6 =
     (Inr (ex_task\<lparr>t_status := completed, t_updated_at := 5\<rparr>),
      ex_store\<lparr>tasks := [ex_task\<lparr>t_status := completed, t_updated_at := 5\<rparr>],
               activity_logs :=
                 [ex_log,
                  \<lparr>al_id = 201, al_task_id = 10, al_user_id = Some 2, al_action = ''updated'',
                   al_old_value = Some ex_task,
                   al_new_value = Some (ex_task\<lparr>t_status := completed, t_updated_at := 5\<rparr>),
                   al_created_at = 6\<rparr>]\<rparr>)"
    using activity_log_after_mutation [THEN conjunct2, THEN conjunct2, THEN conjunct2, THEN mp,
        OF u1, of "[ex_task]" 201 6]
    by (simp add: ex_defs ex_unlogged_store_def new_task_row_def with_created_by_def)
  have 3: "updateTask ex_unlogged_store (Some 1) [ex_task] 10 (no_updates\<lparr>u_id := Some 11\<rparr>) 5 201 6 =
     (Inr (ex_task\<lparr>t_id := 11, t_updated_at := 5\<rparr>),
      ex_unlogged_store\<lparr>tasks := [ex_task\<lparr>t_id := 11, t_updated_at := 5\<rparr>]\<rparr>)"
    using activity_log_after_mutation [THEN conjunct2, THEN conjunct2, THEN conjunct2, THEN mp,
        OF u2, of "[ex_task]" 201 6]
    by (simp add: ex_defs ex_unlogged_store_def new_task_row_def with_created_by_def)
  have 4: "createTask ex_store (Some 2) ex_new 11 5 201 6 = (Inl Unauthorized, ex_store)"
    using activity_log_after_mutation [THEN conjunct1, THEN mp, OF i2, of 201 6] .
  show ?thesis by (intro conjI; fact)
qed

section \<open>Registration\<close>

lemma filter_none: "x \<notin> set (map f xs) \<Longrightarrow> filter (\<lambda>y. f y = x) xs = []"
  by (induction xs) auto

lemma list_ex_none: "x \<notin> set (map f xs) \<Longrightarrow> \<not> list_ex (\<lambda>y. f y = x \<and> P y) xs"
  by (induction xs) auto

lemma handle_new_user_role:
  assumes "au_id new \<notin> set (map p_id (profiles s))"
    "au_id new \<notin> set (map ur_user_id (user_roles s))" "gen \<notin> set (map ur_id (user_roles s))"
    "au_id new \<in> set (map au_id (users s))"
    "(case map_of (raw_user_meta_data new) ''role'' of None \<Rightarrow> Inr user
      | Some v \<Rightarrow> app_role_of_text v) = Inr rl"
  shows "handle_new_user s new gen now =
     Inr (s\<lparr>profiles := profiles s @
              [\<lparr>p_id = au_id new, p_email = au_email new,
                p_full_name = Some (case map_of (raw_user_meta_data new) ''full_name'' of
                                      None \<Rightarrow> [] | Some n \<Rightarrow> n),
                p_avatar_url = None, p_created_at = now, p_updated_at = now\<rparr>],
            user_roles := user_roles s @
              [\<lparr>ur_id = gen, ur_user_id = au_id new, ur_role = rl, ur_created_at = now\<rparr>]\<rparr>)"
  using assms list_ex_none [of "au_id new" ur_user_id "user_roles s"]
  by (simp add: handle_new_user_def user_roles_keys_check_def Let_def)

lemma handle_new_user_invalid:
  assumes "au_id new \<notin> set (map p_id (profiles s))" "au_id new \<in> set (map au_id (users s))"
    "map_of (raw_user_meta_data new) ''role'' = Some v" "v \<noteq> ''user''" "v \<noteq> ''manager''"
  shows "handle_new_user s new gen now = Inl (InvalidEnumValue v)"
  using assms by (simp add: handle_new_user_def app_role_of_text_def Let_def)

text \<open>
  Claim C6, as amended. Let the identity be new: no row of \<^verbatim>\<open>auth.users\<close>,
  \<^verbatim>\<open>profiles\<close> or \<^verbatim>\<open>user_roles\<close> carries its id, and the id drawn for the role row
  is unused. When the signup metadata has no \<^verbatim>\<open>role\<close>, or has \<^verbatim>\<open>"user"\<close> or
  \<^verbatim>\<open>"manager"\<close>, registering it stores exactly one profile row for it, with the
  identity's email, and exactly one role row, with role manager for \<^verbatim>\<open>"manager"\<close> and
  user otherwise. When the metadata has any other text as \<^verbatim>\<open>role\<close>, the cast to the
  enum fails and the registration is rejected as a whole.
\<close>

theorem registration:
  assumes "au_id new \<notin> set (map au_id (users s))" "au_id new \<notin> set (map p_id (profiles s))"
    "au_id new \<notin> set (map ur_user_id (user_roles s))" "gen \<notin> set (map ur_id (user_roles s))"
  shows "(map_of (raw_user_meta_data new) ''role'' \<in> {None, Some ''user'', Some ''manager''} \<longrightarrow>
           (\<exists>s'. insert_auth_user s new gen now = Inr s' \<and>
                 map p_email (filter (\<lambda>p. p_id p = au_id new) (profiles s')) = [au_email new] \<and>
                 map ur_role (filter (\<lambda>r. ur_user_id r = au_id new) (user_roles s')) =
                   [if map_of (raw_user_meta_data new) ''role'' = Some ''manager''
                    then manager else user])) \<and>
         (\<forall>v. map_of (raw_user_meta_data new) ''role'' = Some v \<and> v \<noteq> ''user'' \<and>
              v \<noteq> ''manager'' \<longrightarrow>
              insert_auth_user s new gen now = Inl (InvalidEnumValue v))"
proof (intro conjI impI allI)
  let ?s = "s\<lparr>users := users s @ [new]\<rparr>"
  let ?rl = "if map_of (raw_user_meta_data new) ''role'' = Some ''manager'' then manager else user"
  assume r: "map_of (raw_user_meta_data new) ''role'' \<in> {None, Some ''user'', Some ''manager''}"
  then have "(case map_of (raw_user_meta_data new) ''role'' of None \<Rightarrow> Inr user
      | Some v \<Rightarrow> app_role_of_text v) = Inr ?rl"
    by (auto simp: app_role_of_text_def)
  with assms have "handle_new_user ?s new gen now =
     Inr (?s\<lparr>profiles := profiles ?s @
              [\<lparr>p_id = au_id new, p_email = au_email new,
                p_full_name = Some (case map_of (raw_user_meta_data new) ''full_name'' of
                                      None \<Rightarrow> [] | Some n \<Rightarrow> n),
                p_avatar_url = None, p_created_at = now, p_updated_at = now\<rparr>],
            user_roles := user_roles ?s @
              [\<lparr>ur_id = gen, ur_user_id = au_id new, ur_role = ?rl, ur_created_at = now\<rparr>]\<rparr>)"
    by (intro handle_new_user_role) simp_all
  with assms show "\<exists>s'. insert_auth_user s new gen now = Inr s' \<and>
                 map p_email (filter (\<lambda>p. p_id p = au_id new) (profiles s')) = [au_email new] \<and>
                 map ur_role (filter (\<lambda>r. ur_user_id r = au_id new) (user_roles s')) = [?rl]"
    by (simp add: insert_auth_user_def filter_none)
next
  fix v
  assume "map_of (raw_user_meta_data new) ''role'' = Some v \<and> v \<noteq> ''user'' \<and> v \<noteq> ''manager''"
  with assms show "insert_auth_user s new gen now = Inl (InvalidEnumValue v)"
    by (simp add: insert_auth_user_def handle_new_user_invalid)
qed

text \<open>
  Claim C6 as stated fails: a signup whose role metadata is \<^verbatim>\<open>"admin"\<close> is not given
  the role user; the trigger raises an error and nothing is stored.
\<close>

theorem invalid_role_rejected:
  "map_of (raw_user_meta_data ex_admin_signup) ''role'' = Some ''admin'' \<and>
   insert_auth_user ex_store ex_admin_signup 104 7 = Inl (InvalidEnumValue ''admin'')"
  by (simp add: insert_auth_user_def handle_new_user_def app_role_of_text_def ex_admin_signup_def
      ex_store_def ex_users_def ex_profiles_def Let_def)


text \<open>Identity 4 signs up as a manager, without a role, and with the role "admin".\<close>

theorem registration_witness:
  "(\<exists>s'. insert_auth_user ex_store ex_manager_signup 104 7 = Inr s' \<and>
         map p_email (filter (\<lambda>p. p_id p = 4) (profiles s')) = [''w@example.org''] \<and>
         map ur_role (filter (\<lambda>r. ur_user_id r = 4) (user_roles s')) = [manager]) \<and>
   (\<exists>s'. insert_auth_user ex_store ex_plain_signup 104 7 = Inr s' \<and>
         map p_email (filter (\<lambda>p. p_id p = 4) (profiles s')) = [''w@example.org''] \<and>
         map ur_role (filter (\<lambda>r. ur_user_id r = 4) (user_roles s')) = [user]) \<and>
   insert_auth_user ex_store ex_admin_signup 104 7 = Inl (InvalidEnumValue ''admin'')"
proof -
  have fresh: "4 \<notin> set (map au_id (users ex_store))" "4 \<notin> set (map p_id (profiles ex_store))"
    "4 \<notin> set (map ur_user_id (user_roles ex_store))" "104 \<notin> set (map ur_id (user_roles ex_store))"
    by (simp_all add: ex_store_def ex_users_def ex_profiles_def ex_roles_def)
  have ids: "au_id ex_manager_signup = 4" "au_id ex_plain_signup = 4" "au_id ex_admin_signup = 4"
    by (simp_all add: ex_manager_signup_def ex_plain_signup_def ex_admin_signup_def)
  from registration [of ex_manager_signup ex_store 104 7] fresh
  have 1: "\<exists>s'. insert_auth_user ex_store ex_manager_signup 104 7 = Inr s' \<and>
         map p_email (filter (\<lambda>p. p_id p = 4) (profiles s')) = [''w@example.org''] \<and>
         map ur_role (filter (\<lambda>r. ur_user_id r = 4) (user_roles s')) = [manager]"
    by (simp add: ex_manager_signup_def)
  from registration [of ex_plain_signup ex_store 104 7] fresh
  have 2: "\<exists>s'. insert_auth_user ex_store ex_plain_signup 104 7 = Inr s' \<and>
         map p_email (filter (\<lambda>p. p_id p = 4) (profiles s')) = [''w@example.org''] \<and>
         map ur_role (filter (\<lambda>r. ur_user_id r = 4) (user_roles s')) = [user]"
    by (simp add: ex_plain_signup_def)
  from registration [of ex_admin_signup ex_store 104 7] fresh
  have 3: "insert_auth_user ex_store ex_admin_signup 104 7 = Inl (InvalidEnumValue ''admin'')"
    by (simp add: ex_admin_signup_def)
  from 1 2 3 show ?thesis by blast
qed

section \<open>Deletion\<close>

lemma delete_task_logs:
  assumes "t \<in> set (tasks s)" "has_role s uid manager" "t_created_by t = uid"
  shows "activity_logs (delete_task s uid (t_id t)) =
           filter (\<lambda>l. al_task_id l \<noteq> t_id t) (activity_logs s)"
proof -
  have "set (map t_id (filter (target s uid DELETE (t_id t)) (tasks s))) = {t_id t}"
    using assms by (auto simp: target_delete_iff)
  then show ?thesis by (simp add: delete_task_def Let_def)
qed

text \<open>
  Claim C8, as amended. When the manager who created task \<open>t\<close> deletes it, the task is
  gone and the activity log keeps exactly the rows that do not reference it. When an
  identity \<open>x\<close> is deleted, a task assigned to \<open>x\<close> and created by someone else
  stays, with \<^verbatim>\<open>assigned_to\<close> set to NULL (and \<^verbatim>\<open>updated_at\<close> stamped by the update
  trigger); a task created by \<open>x\<close> is deleted, whoever it is assigned to, and so are
  the activity log rows that reference it.
\<close>

theorem deletion_cascades:
  "(t \<in> set (tasks s) \<and> has_role s uid manager \<and> t_created_by t = uid \<longrightarrow>
      t \<notin> set (tasks (delete_task s uid (t_id t))) \<and>
      activity_logs (delete_task s uid (t_id t)) =
        filter (\<lambda>l. al_task_id l \<noteq> t_id t) (activity_logs s)) \<and>
   (t \<in> set (tasks s) \<and> t_assigned_to t = Some x \<and> t_created_by t \<noteq> x \<longrightarrow>
      t\<lparr>t_assigned_to := None, t_updated_at := now\<rparr> \<in> set (tasks (delete_auth_user s x now))) \<and>
   (t \<in> set (tasks s) \<and> t_created_by t = x \<longrightarrow>
      t \<notin> set (tasks (delete_auth_user s x now)) \<and>
      filter (\<lambda>l. al_task_id l = t_id t) (activity_logs (delete_auth_user s x now)) = [])"
proof (intro conjI impI; elim conjE)
  assume a: "t \<in> set (tasks s)" "has_role s uid manager" "t_created_by t = uid"
  then show "t \<notin> set (tasks (delete_task s uid (t_id t)))"
    by (simp add: delete_task_def Let_def target_delete_iff)
  from a show "activity_logs (delete_task s uid (t_id t)) =
        filter (\<lambda>l. al_task_id l \<noteq> t_id t) (activity_logs s)"
    by (rule delete_task_logs)
next
  assume "t \<in> set (tasks s)" "t_assigned_to t = Some x" "t_created_by t \<noteq> x"
  then show "t\<lparr>t_assigned_to := None, t_updated_at := now\<rparr> \<in> set (tasks (delete_auth_user s x now))"
    by (force simp: delete_auth_user_def Let_def update_updated_at_column_def image_iff)
next
  assume a: "t \<in> set (tasks s)" "t_created_by t = x"
  then show "t \<notin> set (tasks (delete_auth_user s x now))"
    by (auto simp: delete_auth_user_def Let_def update_updated_at_column_def)
  from a show "filter (\<lambda>l. al_task_id l = t_id t) (activity_logs (delete_auth_user s x now)) = []"
    by (auto simp: delete_auth_user_def Let_def filter_empty_conv)
qed

text \<open>
  Claim C8 as stated fails: the manager has assigned the task to themselves; deleting the
  manager's identity deletes the task instead of setting \<^verbatim>\<open>assigned_to\<close> to NULL.
\<close>

theorem creator_assignee_deleted:
  "tasks ex_own_store = [ex_own_task] \<and> t_assigned_to ex_own_task = Some 1 \<and>
   tasks (delete_auth_user ex_own_store 1 9) = []"
  by (simp add: delete_auth_user_def ex_own_store_def ex_own_task_def ex_store_def ex_task_def Let_def)

text \<open>Task 10 is deleted by its creator; user 2, its assignee, is deleted; its creator is deleted.\<close>

theorem deletion_cascades_witness:
  "ex_task \<in> set (tasks ex_store) \<and> has_role ex_store 1 manager \<and> t_created_by ex_task = 1 \<and>
   activity_logs ex_store = [ex_log] \<and> al_task_id ex_log = t_id ex_task \<and>
   ex_task \<notin> set (tasks (delete_task ex_store 1 (t_id ex_task))) \<and>
   activity_logs (delete_task ex_store 1 (t_id ex_task)) = [] \<and>
   t_assigned_to ex_task = Some 2 \<and>
   ex_task\<lparr>t_assigned_to := None, t_updated_at := 9\<rparr> \<in> set (tasks (delete_auth_user ex_store 2 9)) \<and>
   ex_task \<notin> set (tasks (delete_auth_user ex_store 1 9)) \<and>
   filter (\<lambda>l. al_task_id l = t_id ex_task) (activity_logs (delete_auth_user ex_store 1 9)) = []"
proof -
  have f: "ex_task \<in> set (tasks ex_store)" "has_role ex_store 1 manager" "t_created_by ex_task = 1"
    "activity_logs ex_store = [ex_log]" "al_task_id ex_log = t_id ex_task"
    "t_assigned_to ex_task = Some 2" "t_created_by ex_task \<noteq> 2"
    by (simp_all add: ex_store_def ex_task_def ex_log_def has_role_def ex_roles_def)
  from deletion_cascades [of ex_task ex_store 1 _ _] f
  have 1: "ex_task \<notin> set (tasks (delete_task ex_store 1 (t_id ex_task)))"
    "activity_logs (delete_task ex_store 1 (t_id ex_task)) = []"
    by simp_all
  from deletion_cascades [of ex_task ex_store _ 2 9] f
  have 2: "ex_task\<lparr>t_assigned_to := None, t_updated_at := 9\<rparr> \<in> set (tasks (delete_auth_user ex_store 2 9))"
    by blast
  from deletion_cascades [of ex_task ex_store _ 1 9] f
  have 3: "ex_task \<notin> set (tasks (delete_auth_user ex_store 1 9))"
    "filter (\<lambda>l. al_task_id l = t_id ex_task) (activity_logs (delete_auth_user ex_store 1 9)) = []"
    by blast+
  from f 1 2 3 show ?thesis by simp
qed

section \<open>Lengths of title and description\<close>

lemma insert_task_isl:
  "isl (insert_task s uid p gen now) \<longleftrightarrow>
     (case i_priority p of Some (Some v) \<Rightarrow> \<not> int4 v | _ \<Rightarrow> False) \<or>
     \<not> (has_role s uid manager \<and> t_created_by (new_task_row p gen now) = uid \<and>
        priority_check (new_task_row p gen now) \<and>
        task_keys_check s (tasks s) None (new_task_row p gen now) = None)"
  by (auto simp: insert_task_def tasks_insert_iff tasks_select_iff Let_def split: option.splits)

lemma new_task_row_title_description:
  "new_task_row (p\<lparr>i_title := ttl, i_description := dsc\<rparr>) gen now =
     (new_task_row p gen now)\<lparr>t_title := ttl, t_description := dsc\<rparr>"
  by (simp add: new_task_row_def)

lemma checks_title_description [simp]:
  "spec_update_predicate s uid (r\<lparr>t_title := a, t_description := b\<rparr>) = spec_update_predicate s uid r"
  "priority_check (r\<lparr>t_title := a, t_description := b\<rparr>) = priority_check r"
  "task_pk_check others (r\<lparr>t_title := a, t_description := b\<rparr>) = task_pk_check others r"
  "task_fk_check s old (r\<lparr>t_title := a, t_description := b\<rparr>) = task_fk_check s old r"
  by (simp_all add: spec_update_predicate_def priority_check_def task_pk_check_def
      task_fk_check_def split: option.splits)

lemma keys_title_description [simp]:
  "task_keys_check s others old (r\<lparr>t_title := a, t_description := b\<rparr>) =
     task_keys_check s others old r"
  by (simp add: task_keys_check_def split: option.splits)

lemma insert_task_title_description:
  "isl (insert_task s uid (p\<lparr>i_title := ttl, i_description := dsc\<rparr>) gen now) =
   isl (insert_task s uid p gen now)"
  by (simp add: insert_task_isl new_task_row_title_description)

lemma apply_updates_title_description:
  "apply_updates (u\<lparr>u_title := a, u_description := b\<rparr>) t =
     (apply_updates u t)\<lparr>t_title := (case a of None \<Rightarrow> t_title t | Some x \<Rightarrow> x),
                         t_description := (case b of None \<Rightarrow> t_description t | Some x \<Rightarrow> x)\<rparr>"
  by (simp add: apply_updates_def)

lemma update_task_isl:
  "isl (update_task s uid tid u now) \<longleftrightarrow>
     (case u_priority u of Some v \<Rightarrow> \<not> int4 v | None \<Rightarrow> False) \<or>
     (case filter (target s uid UPDATE tid) (tasks s) of
        [t] \<Rightarrow>
          \<not> (spec_update_predicate s uid (apply_updates u t) \<and>
             priority_check (apply_updates u t) \<and>
             task_pk_check (filter (\<lambda>x. \<not> target s uid UPDATE tid x) (tasks s))
               (apply_updates u t) = None \<and>
             \<not> (t_id (apply_updates u t) \<noteq> t_id t \<and> referenced_by_log s (t_id t)) \<and>
             task_fk_check s (Some t) (apply_updates u t) = None)
      | _ \<Rightarrow> True)"
  by (simp add: update_task_def new_row_check Let_def split: list.splits option.splits)

lemma update_task_title_description:
  "isl (update_task s uid tid (u\<lparr>u_title := a, u_description := b\<rparr>) now) =
   isl (update_task s uid tid u now)"
  by (simp add: update_task_isl apply_updates_title_description split: list.splits)

text \<open>
  Claim C9, as amended. The table has no constraint on the length of \<^verbatim>\<open>title\<close> or
  \<^verbatim>\<open>description\<close>: whether an insert or an update is accepted does not depend on the
  title and description it gives. The limits are those of the form: \<open>handleSubmit\<close>
  submits only a title of 1 to 200 characters and a description of at most 2000, and for
  a title outside 1 to 200 characters or a description over 2000 it submits nothing and
  records an error under the key of the failing field.
\<close>

theorem length_limits_in_form_only:
  "isl (insert_task s uid (p\<lparr>i_title := ttl, i_description := dsc\<rparr>) gen now) =
     isl (insert_task s uid p gen now) \<and>
   isl (update_task s uid tid (u\<lparr>u_title := a, u_description := b\<rparr>) now) =
     isl (update_task s uid tid u now) \<and>
   (handleSubmit fd = Inr d \<longrightarrow>
      1 \<le> length (n_title d) \<and> length (n_title d) \<le> 200 \<and>
      (\<forall>x. n_description d = Some x \<longrightarrow> length x \<le> 2000)) \<and>
   (length (f_title fd) < 1 \<or> 200 < length (f_title fd) \<longrightarrow>
      (\<exists>errs. handleSubmit fd = Inl errs \<and> ''title'' \<in> set (map fst errs))) \<and>
   (2000 < length (f_description fd) \<longrightarrow>
      (\<exists>errs. handleSubmit fd = Inl errs \<and> ''description'' \<in> set (map fst errs)))"
proof -
  have 1: "handleSubmit fd = Inr d \<longrightarrow>
      1 \<le> length (n_title d) \<and> length (n_title d) \<le> 200 \<and>
      (\<forall>x. n_description d = Some x \<longrightarrow> length x \<le> 2000)"
    by (auto simp: handleSubmit_def taskSchema_def Let_def Suc_le_eq split: if_splits)
  have 2: "length (f_title fd) < 1 \<or> 200 < length (f_title fd) \<longrightarrow>
      (\<exists>errs. handleSubmit fd = Inl errs \<and> ''title'' \<in> set (map fst errs))"
    by (auto simp: handleSubmit_def taskSchema_def Let_def)
  have 3: "2000 < length (f_description fd) \<longrightarrow>
      (\<exists>errs. handleSubmit fd = Inl errs \<and> ''description'' \<in> set (map fst errs))"
    by (auto simp: handleSubmit_def taskSchema_def Let_def)
  from insert_task_title_description update_task_title_description 1 2 3
  show ?thesis by blast
qed

text \<open>
  Claim C9 as stated fails: the manager inserts a task with an empty title, and the store
  accepts it.
\<close>

theorem empty_title_stored:
  "length (i_title (ex_insert\<lparr>i_title := []\<rparr>)) = 0 \<and>
   insert_task ex_store 1 (ex_insert\<lparr>i_title := []\<rparr>) 11 5 =
     Inr (\<lparr>t_id = 11, t_title = [], t_description = None, t_status = todo,
           t_priority = Some 1, t_created_by = 1, t_assigned_to = None, t_due_date = None,
           t_created_at = 5, t_updated_at = 5\<rparr>,
          ex_store\<lparr>tasks :=
            [ex_task,
             \<lparr>t_id = 11, t_title = [], t_description = None, t_status = todo,
              t_priority = Some 1, t_created_by = 1, t_assigned_to = None, t_due_date = None,
              t_created_at = 5, t_updated_at = 5\<rparr>]\<rparr>)"
  by (simp add: insert_eval ex_defs ex_insert_def)

text \<open>
  The form with a valid task, with its initial empty title, and with a description of
  2001 characters.
\<close>

theorem length_limits_in_form_only_witness:
  "handleSubmit (initial_form_data\<lparr>f_title := ''Review'', f_description := ''Read the draft'',
        f_assigned_to := Some 3\<rparr>) =
     Inr ex_new \<and>
   1 \<le> length (n_title ex_new) \<and> length (n_title ex_new) \<le> 200 \<and>
   n_description ex_new = Some ''Read the draft'' \<and> length ''Read the draft'' \<le> 2000 \<and>
   length (f_title initial_form_data) < 1 \<and>
   (\<exists>errs. handleSubmit initial_form_data = Inl errs \<and> ''title'' \<in> set (map fst errs)) \<and>
   2000 < length (f_description (initial_form_data\<lparr>f_description := replicate 2001 CHR ''a''\<rparr>)) \<and>
   (\<exists>errs. handleSubmit (initial_form_data\<lparr>f_description := replicate 2001 CHR ''a''\<rparr>) = Inl errs \<and>
          ''description'' \<in> set (map fst errs))"
proof -
  have 1: "handleSubmit (initial_form_data\<lparr>f_title := ''Review'', f_description := ''Read the draft'',
        f_assigned_to := Some 3\<rparr>) =
     Inr ex_new"
    by (simp add: handleSubmit_def taskSchema_def initial_form_data_def ex_new_def Let_def)
  have 2: "length (f_title initial_form_data) < 1"
    by (simp add: initial_form_data_def)
  have 3: "2000 < length (f_description (initial_form_data\<lparr>f_description := replicate 2001 CHR ''a''\<rparr>))"
    by simp
  have 0: "n_description ex_new = Some ''Read the draft''"
    by (simp add: ex_new_def)
  from length_limits_in_form_only
    [where fd = "initial_form_data\<lparr>f_title := ''Review'', f_description := ''Read the draft'',
        f_assigned_to := Some 3\<rparr>"
       and d = ex_new] 1 0
  have 4: "1 \<le> length (n_title ex_new) \<and> length (n_title ex_new) \<le> 200 \<and>
     length ''Read the draft'' \<le> 2000"
    by blast
  from length_limits_in_form_only [where fd = initial_form_data] 2
  have 5: "\<exists>errs. handleSubmit initial_form_data = Inl errs \<and> ''title'' \<in> set (map fst errs)"
    by blast
  from length_limits_in_form_only
    [where fd = "initial_form_data\<lparr>f_description := replicate 2001 CHR ''a''\<rparr>"] 3
  have 6: "\<exists>errs. handleSubmit (initial_form_data\<lparr>f_description := replicate 2001 CHR ''a''\<rparr>) = Inl errs \<and>
          ''description'' \<in> set (map fst errs)"
    by blast
  from 4 have 7: "1 \<le> length (n_title ex_new)" "length (n_title ex_new) \<le> 200"
    "length ''Read the draft'' \<le> 2000"
    by blast+
  show ?thesis by (intro conjI; fact)
qed

section \<open>Roles of one identity\<close>

lemma get_user_role_both:
  assumes "has_role s x manager" "has_role s x user"
  shows "get_user_role s x = {Some manager, Some user}"
proof -
  let ?rows = "filter (\<lambda>r. ur_user_id r = x) (user_roles s)"
  from assms obtain a b where
    a: "a \<in> set ?rows" "ur_role a = manager" and b: "b \<in> set ?rows" "ur_role b = user"
    by (auto simp: has_role_def list_ex_iff)
  then have ne: "?rows \<noteq> []" by (auto simp: filter_empty_conv)
  have "set (map (\<lambda>r. Some (ur_role r)) ?rows) = {Some manager, Some user}"
  proof (intro equalityI subsetI)
    fix y assume "y \<in> set (map (\<lambda>r. Some (ur_role r)) ?rows)"
    moreover have "\<And>r. ur_role r = manager \<or> ur_role r = user"
      by (metis app_role.exhaust)
    ultimately show "y \<in> {Some manager, Some user}" by auto
  next
    fix y assume "y \<in> {Some manager, Some user}"
    with a b show "y \<in> set (map (\<lambda>r. Some (ur_role r)) ?rows)" by force
  qed
  with ne show ?thesis by (simp add: get_user_role_def Let_def)
qed

text \<open>
  Claim C10. Uniqueness in \<^verbatim>\<open>user_roles\<close> is per pair of identity and role (and per
  row id): an identity that holds the role manager and not yet the role user can insert
  a row with the role user for itself, and the insert is accepted. In the resulting
  state \<^verbatim>\<open>get_user_role\<close> may return either role: its query has \<^verbatim>\<open>LIMIT 1\<close>
  without an order.
\<close>

theorem both_roles_admitted:
  assumes "has_role s x manager" "\<not> has_role s x user" "x \<in> set (map au_id (users s))"
    "gen \<notin> set (map ur_id (user_roles s))"
  shows "insert_user_role s x x (Some user) gen now =
           Inr (s\<lparr>user_roles := user_roles s @
                  [\<lparr>ur_id = gen, ur_user_id = x, ur_role = user, ur_created_at = now\<rparr>]\<rparr>) \<and>
         get_user_role
           (s\<lparr>user_roles := user_roles s @
                  [\<lparr>ur_id = gen, ur_user_id = x, ur_role = user, ur_created_at = now\<rparr>]\<rparr>) x =
           {Some manager, Some user}"
proof
  from assms show "insert_user_role s x x (Some user) gen now =
           Inr (s\<lparr>user_roles := user_roles s @
                  [\<lparr>ur_id = gen, ur_user_id = x, ur_role = user, ur_created_at = now\<rparr>]\<rparr>)"
    by (simp add: insert_user_role_def user_roles_insert_iff user_roles_keys_check_def
        has_role_def Let_def)
  from assms(1) show "get_user_role
           (s\<lparr>user_roles := user_roles s @
                  [\<lparr>ur_id = gen, ur_user_id = x, ur_role = user, ur_created_at = now\<rparr>]\<rparr>) x =
           {Some manager, Some user}"
    by (intro get_user_role_both) (simp_all add: has_role_def)
qed

text \<open>The manager of the example gives themselves the role user as well.\<close>

theorem both_roles_admitted_witness:
  "has_role ex_store 1 manager \<and> \<not> has_role ex_store 1 user \<and>
   insert_user_role ex_store 1 1 (Some user) 104 7 =
     Inr (ex_store\<lparr>user_roles := ex_roles @
            [\<lparr>ur_id = 104, ur_user_id = 1, ur_role = user, ur_created_at = 7\<rparr>]\<rparr>) \<and>
   get_user_role
     (ex_store\<lparr>user_roles := ex_roles @
            [\<lparr>ur_id = 104, ur_user_id = 1, ur_role = user, ur_created_at = 7\<rparr>]\<rparr>) 1 =
     {Some manager, Some user}"
proof -
  have f: "has_role ex_store 1 manager" "\<not> has_role ex_store 1 user"
    "1 \<in> set (map au_id (users ex_store))" "104 \<notin> set (map ur_id (user_roles ex_store))"
    "user_roles ex_store = ex_roles"
    by (simp_all add: has_role_def ex_store_def ex_roles_def ex_users_def)
  from both_roles_admitted [OF f(1-4), of 7] f show ?thesis by simp
qed

end
